theory Spec2Isabelle
  imports Complex_Main "HOL-Library.Sublist"
begin

section \<open>Data model\<close>

text \<open>
  The two scrapers of the repository (the community scraper for Pelando and Promobit and the
  direct Amazon scraper) are embedded side by side. A JavaScript \<open>number\<close> is modelled as a
  real: a double is taken at its exact value, so rounding error, NaN produced by arithmetic
  and the infinities are outside the model. An optional field (\<open>asin?: string\<close>) is an
  option. Strings are lists of 8-bit characters.

  The field \<open>id\<close> of \<open>CommunityDeal\<close> is called \<open>deal_id\<close>, and the fields of
  \<open>ScrapedProduct\<close> carry the prefix \<open>p_\<close>, because the two interfaces share their
  field names.
\<close>

record CommunityDeal =
  deal_id :: string
  title :: string
  price :: real
  originalPrice :: "real option"
  discount :: real
  dealUrl :: string
  amazonUrl :: "string option"
  asin :: "string option"
  imageUrl :: string
  upvotes :: real
  category :: string
  normalizedCategory :: string
  source :: string
  dealScore :: real
  scrapedAt :: real

datatype source_type = deals | bestsellers

record ScrapedProduct =
  p_asin :: string
  p_title :: string
  p_price :: real
  p_originalPrice :: "real option"
  p_discount :: real
  p_imageUrl :: string
  p_productUrl :: string
  p_rating :: real
  p_reviewCount :: real
  p_category :: string
  p_normalizedCategory :: string
  p_dealScore :: real
  p_source :: source_type
  p_scrapedAt :: real

section \<open>Deduplication\<close>

text \<open>
  A JavaScript \<open>Map\<close> keeps its entries in the order in which their keys were first
  inserted; \<open>set\<close> on a key that is already present replaces the value and leaves the
  entry where it is. The map is therefore an association list, \<open>Map.get\<close> is
  \<open>map_of\<close> and \<open>Array.from(seen.values())\<close> is \<open>map snd\<close>.
\<close>

fun map_set :: "('k \<times> 'v) list \<Rightarrow> 'k \<Rightarrow> 'v \<Rightarrow> ('k \<times> 'v) list" where
  "map_set [] k v = [(k, v)]"
| "map_set ((k', v') # m) k v =
     (if k' = k then (k, v) # m else (k', v') # map_set m k v)"

text \<open>
  The loop of \<open>deduplicateDeals\<close> and of \<open>deduplicateProducts\<close>; the two functions
  differ only in the key (\<open>deal.asin || deal.id\<close> against \<open>product.asin\<close>).
\<close>

fun dedupLoop ::
  "('a \<Rightarrow> string) \<Rightarrow> ('a \<Rightarrow> real) \<Rightarrow> (string \<times> 'a) list \<Rightarrow> 'a list \<Rightarrow> (string \<times> 'a) list"
where
  "dedupLoop key score seen [] = seen"
| "dedupLoop key score seen (item # rest) =
     (case map_of seen (key item) of
        None \<Rightarrow> dedupLoop key score (map_set seen (key item) item) rest
      | Some existing \<Rightarrow>
          if score item > score existing
          then dedupLoop key score (map_set seen (key item) item) rest
          else dedupLoop key score seen rest)"

text \<open>\<open>deal.asin || deal.id\<close>: an absent or empty ASIN is falsy.\<close>

definition dealKey :: "CommunityDeal \<Rightarrow> string" where
  "dealKey deal =
     (case asin deal of
        None \<Rightarrow> deal_id deal
      | Some a \<Rightarrow> if a = [] then deal_id deal else a)"

definition deduplicateDeals :: "CommunityDeal list \<Rightarrow> CommunityDeal list" where
  "deduplicateDeals ds = map snd (dedupLoop dealKey dealScore [] ds)"

definition deduplicateProducts :: "ScrapedProduct list \<Rightarrow> ScrapedProduct list" where
  "deduplicateProducts products = map snd (dedupLoop p_asin p_dealScore [] products)"

text \<open>
  What the claim says of the survivor of a group: it occurs in the input at a place where
  every earlier listing of its group scores strictly less and every later one scores at
  most as much.
\<close>

definition bestOfGroup :: "('a \<Rightarrow> string) \<Rightarrow> ('a \<Rightarrow> real) \<Rightarrow> 'a list \<Rightarrow> 'a \<Rightarrow> bool" where
  "bestOfGroup key score xs d \<longleftrightarrow>
     (\<exists>before after. xs = before @ d # after \<and>
        (\<forall>e \<in> set before. key e = key d \<longrightarrow> score e < score d) \<and>
        (\<forall>e \<in> set after. key e = key d \<longrightarrow> score e \<le> score d))"

definition dedupInv ::
  "('a \<Rightarrow> string) \<Rightarrow> ('a \<Rightarrow> real) \<Rightarrow> (string \<times> 'a) list \<Rightarrow> 'a list \<Rightarrow> bool"
where
  "dedupInv key score seen done \<longleftrightarrow>
     distinct (map fst seen) \<and>
     fst ` set seen = key ` set done \<and>
     (\<forall>(k, v) \<in> set seen. key v = k \<and> bestOfGroup key score done v)"

text \<open>Sample listings for the concrete instances below.\<close>

definition sampleDeal :: "string \<Rightarrow> string option \<Rightarrow> real \<Rightarrow> CommunityDeal" where
  "sampleDeal i a s =
     \<lparr> deal_id = i, title = ''Fone de ouvido bluetooth'', price = 100,
       originalPrice = None, discount = 40, dealUrl = ''https://pelando.com.br/d/1'',
       amazonUrl = None, asin = a, imageUrl = [], upvotes = 9, category = ''Geral'',
       normalizedCategory = ''electronics'', source = ''Pelando'', dealScore = s,
       scrapedAt = 0 \<rparr>"

definition sampleProduct :: "string \<Rightarrow> real \<Rightarrow> ScrapedProduct" where
  "sampleProduct a s =
     \<lparr> p_asin = a, p_title = ''Fone de ouvido bluetooth'', p_price = 100,
       p_originalPrice = None, p_discount = 20, p_imageUrl = [],
       p_productUrl = ''https://www.amazon.com.br/dp/'' @ a, p_rating = 4, p_reviewCount = 100,
       p_category = ''electronics'', p_normalizedCategory = ''electronics'', p_dealScore = s,
       p_source = bestsellers, p_scrapedAt = 0 \<rparr>"

section \<open>Configuration\<close>

text \<open>
  Each scraper has a module constant \<open>CONFIG\<close>. The functions below take the
  configuration as an argument, so that the thresholds and the budget can vary; the
  constants \<open>CONFIG\<close> and \<open>p_CONFIG\<close> are the values of the source.
\<close>

record CommunityConfig =
  MAX_REQUESTS :: nat
  DELAY_MIN_MS :: nat
  DELAY_MAX_MS :: nat
  MAX_RETRIES :: nat
  RETRY_DELAY_MS :: nat
  TIMEOUT_MS :: nat
  MAX_PRODUCTS_PER_SOURCE :: nat
  MIN_UPVOTES :: real
  MIN_DISCOUNT :: real

definition CONFIG :: CommunityConfig where
  "CONFIG =
     \<lparr> MAX_REQUESTS = 4, DELAY_MIN_MS = 3000, DELAY_MAX_MS = 6000, MAX_RETRIES = 2,
       RETRY_DELAY_MS = 2000, TIMEOUT_MS = 20000, MAX_PRODUCTS_PER_SOURCE = 30,
       MIN_UPVOTES = 5, MIN_DISCOUNT = 10 \<rparr>"

record AmazonConfig =
  p_MAX_REQUESTS_PER_SESSION :: nat
  p_DELAY_MIN_MS :: nat
  p_DELAY_MAX_MS :: nat
  p_MAX_RETRIES :: nat
  p_RETRY_DELAY_MS :: nat
  p_TIMEOUT_MS :: nat
  p_MAX_PRODUCTS_PER_SOURCE :: nat
  p_MIN_PRICE :: real
  p_MAX_PRICE :: real
  p_MIN_RATING :: real
  p_MIN_REVIEWS :: real

definition p_CONFIG :: AmazonConfig where
  "p_CONFIG =
     \<lparr> p_MAX_REQUESTS_PER_SESSION = 6, p_DELAY_MIN_MS = 8000, p_DELAY_MAX_MS = 15000,
       p_MAX_RETRIES = 2, p_RETRY_DELAY_MS = 5000, p_TIMEOUT_MS = 30000,
       p_MAX_PRODUCTS_PER_SOURCE = 25, p_MIN_PRICE = 25, p_MAX_PRICE = 2500,
       p_MIN_RATING = 3, p_MIN_REVIEWS = 10 \<rparr>"

section \<open>Quality filter\<close>

text \<open>
  The callbacks of \<open>deals.filter\<close> and \<open>products.filter\<close>, with the early returns of
  the source in their order. \<open>!d.title\<close> is true of the empty string.
\<close>

definition qualityDeal :: "CommunityConfig \<Rightarrow> CommunityDeal \<Rightarrow> bool" where
  "qualityDeal cfg d =
     (if title d = [] \<or> length (title d) < 10 then False
      else if price d > 0 \<and> (price d < 20 \<or> price d > 3000) then False
      else if upvotes d < MIN_UPVOTES cfg then False
      else if discount d < MIN_DISCOUNT cfg then False
      else True)"

definition filterQualityDeals :: "CommunityConfig \<Rightarrow> CommunityDeal list \<Rightarrow> CommunityDeal list" where
  "filterQualityDeals cfg ds = filter (qualityDeal cfg) ds"

definition qualityProduct :: "AmazonConfig \<Rightarrow> ScrapedProduct \<Rightarrow> bool" where
  "qualityProduct cfg p =
     (if p_asin p = [] \<or> length (p_asin p) \<noteq> 10 then False
      else if p_title p = [] \<or> length (p_title p) < 10 then False
      else if p_price p < p_MIN_PRICE cfg \<or> p_price p > p_MAX_PRICE cfg then False
      else if p_rating p > 0 \<and> p_rating p < p_MIN_RATING cfg then False
      else if p_reviewCount p > 0 \<and> p_reviewCount p < p_MIN_REVIEWS cfg then False
      else True)"

definition filterQualityProducts :: "AmazonConfig \<Rightarrow> ScrapedProduct list \<Rightarrow> ScrapedProduct list" where
  "filterQualityProducts cfg ps = filter (qualityProduct cfg) ps"

section \<open>Ranking and truncation\<close>

text \<open>
  \<open>Array.prototype.sort\<close> with a comparator is a stable sort (ECMAScript 2019): an element
  \<open>a\<close> stays before a later element \<open>b\<close> unless \<open>cmp a b > 0\<close>. For a consistent
  comparator the result does not depend on the algorithm; it is written here as an
  insertion sort.
\<close>

fun insertSorted :: "('a \<Rightarrow> 'a \<Rightarrow> real) \<Rightarrow> 'a \<Rightarrow> 'a list \<Rightarrow> 'a list" where
  "insertSorted cmp x [] = [x]"
| "insertSorted cmp x (y # ys) =
     (if cmp x y \<le> 0 then x # y # ys else y # insertSorted cmp x ys)"

definition array_sort :: "('a \<Rightarrow> 'a \<Rightarrow> real) \<Rightarrow> 'a list \<Rightarrow> 'a list" where
  "array_sort cmp xs = foldr (insertSorted cmp) xs []"

text \<open>
  \<open>xs.slice(0, end)\<close> for an integer \<open>end\<close>: a negative \<open>end\<close> counts from the end of
  the array.
\<close>

definition array_slice0 :: "'a list \<Rightarrow> int \<Rightarrow> 'a list" where
  "array_slice0 xs e =
     (let len = int (length xs);
          final = (if e < 0 then max (len + e) 0 else min e len)
      in take (nat final) xs)"

text \<open>
  The post-processing of \<open>discoverCommunityDeals\<close> and of \<open>discoverProducts\<close>:
  deduplicate, filter, sort by \<open>b.dealScore - a.dealScore\<close>, slice.
\<close>

definition postProcessDeals :: "CommunityConfig \<Rightarrow> int \<Rightarrow> CommunityDeal list \<Rightarrow> CommunityDeal list" where
  "postProcessDeals cfg limit allDeals =
     array_slice0
       (array_sort (\<lambda>a b. dealScore b - dealScore a)
          (filterQualityDeals cfg (deduplicateDeals allDeals)))
       limit"

definition postProcessProducts :: "AmazonConfig \<Rightarrow> int \<Rightarrow> ScrapedProduct list \<Rightarrow> ScrapedProduct list" where
  "postProcessProducts cfg limit allProducts =
     array_slice0
       (array_sort (\<lambda>a b. p_dealScore b - p_dealScore a)
          (filterQualityProducts cfg (deduplicateProducts allProducts)))
       limit"

text \<open>The identifiers of a list in the order in which each is first seen.\<close>

fun firstSeen :: "string list \<Rightarrow> string list" where
  "firstSeen [] = []"
| "firstSeen (k # ks) = k # filter (\<lambda>x. x \<noteq> k) (firstSeen ks)"

text \<open>
  Discovery order on ties, as the claim states it: the listings of one score stand in the
  result in the order in which they stand in the list of all discovered listings.
\<close>

definition tiesInDiscoveryOrder :: "('a \<Rightarrow> real) \<Rightarrow> 'a list \<Rightarrow> 'a list \<Rightarrow> bool" where
  "tiesInDiscoveryOrder score discovered result \<longleftrightarrow>
     (\<forall>s. subseq (filter (\<lambda>d. score d = s) result) discovered)"

section \<open>Deal score\<close>

text \<open>\<open>Math.round\<close> rounds to the nearest integer, a half upwards.\<close>

definition Math_round :: "real \<Rightarrow> real" where
  "Math_round x = of_int \<lfloor>x + 1 / 2\<rfloor>"

definition CATEGORY_WEIGHTS :: "(string \<times> real) list" where
  "CATEGORY_WEIGHTS =
     [(''electronics'', 100), (''home'', 80), (''sports'', 75), (''toys'', 70), (''other'', 50)]"

definition p_CATEGORY_WEIGHTS :: "(string \<times> real) list" where
  "p_CATEGORY_WEIGHTS =
     [(''electronics'', 100), (''home'', 80), (''sports'', 75), (''toys'', 70), (''other'', 40)]"

text \<open>
  \<open>WEIGHTS[category] || WEIGHTS.other\<close>, the table read at its own keys: a missing key
  and a weight of zero both give the weight of \<open>other\<close>.
\<close>

definition weightOf :: "(string \<times> real) list \<Rightarrow> string \<Rightarrow> real" where
  "weightOf table c =
     (let other = (case map_of table ''other'' of Some w \<Rightarrow> w | None \<Rightarrow> 0)
      in case map_of table c of
           None \<Rightarrow> other
         | Some w \<Rightarrow> if w = 0 then other else w)"

text \<open>
  The community score. \<open>deal.discount || 0\<close> and \<open>deal.upvotes || 0\<close> are the identity on
  reals; \<open>deal.normalizedCategory || "other"\<close> replaces the empty string; \<open>deal.asin\<close> is
  truthy when it is present and not empty.
\<close>

definition calculateDealScore :: "CommunityDeal \<Rightarrow> real" where
  "calculateDealScore deal =
     (let category = (if normalizedCategory deal = [] then ''other'' else normalizedCategory deal);
          discountScore = min ((discount deal / 40) * 100) 100;
          upvoteScore = min ((log 10 (max (upvotes deal) 1 + 1) / 2) * 100) 100;
          categoryScore = weightOf CATEGORY_WEIGHTS category;
          asinBonus = (case asin deal of None \<Rightarrow> 0 | Some a \<Rightarrow> if a = [] then 0 else 15);
          score = discountScore * (35 / 100) + upvoteScore * (30 / 100)
                  + categoryScore * (20 / 100) + asinBonus
      in Math_round (min score 100))"

text \<open>The score of the Amazon scraper.\<close>

definition p_calculateDealScore :: "ScrapedProduct \<Rightarrow> real" where
  "p_calculateDealScore product =
     (let category = (if p_normalizedCategory product = [] then ''other''
                      else p_normalizedCategory product);
          discountScore = min ((p_discount product / 40) * 100) 100;
          ratingScore = max (((p_rating product - 3) / 2) * 100) 0;
          reviewScore = min ((log 10 (max (p_reviewCount product) 1) / log 10 5000) * 100) 100;
          categoryScore = weightOf p_CATEGORY_WEIGHTS category;
          sourceBonus = (if p_source product = deals then 10 else 0);
          score = discountScore * (30 / 100) + ratingScore * (25 / 100)
                  + reviewScore * (20 / 100) + categoryScore * (15 / 100) + sourceBonus
      in Math_round (min score 100))"

section \<open>Strings and numeric parsing\<close>

text \<open>
  The built-in string functions the scrapers use, on 8-bit code units (ASCII and Latin-1).
  White space is what \<open>\s\<close> and \<open>trim\<close> match in that range: TAB, LF, VT, FF, CR, space
  and the no-break space.
\<close>

definition isDigit :: "char \<Rightarrow> bool" where
  "isDigit c \<longleftrightarrow> c \<in> set ''0123456789''"

definition isWhiteSpace :: "char \<Rightarrow> bool" where
  "isWhiteSpace c \<longleftrightarrow> c \<in> set [CHR 0x09, CHR 0x0A, CHR 0x0B, CHR 0x0C, CHR 0x0D, CHR '' '', CHR 0xA0]"

definition digitValue :: "char \<Rightarrow> nat" where
  "digitValue c = of_char c - 48"

definition digitsValue :: "string \<Rightarrow> nat" where
  "digitsValue ds = foldl (\<lambda>n c. 10 * n + digitValue c) 0 ds"

text \<open>\<open>s.includes(t)\<close>, \<open>s.startsWith(t)\<close>, \<open>s.trim()\<close>.\<close>

fun startsWith :: "string \<Rightarrow> string \<Rightarrow> bool" where
  "startsWith s [] = True"
| "startsWith [] (t # ts) = False"
| "startsWith (c # cs) (t # ts) = (c = t \<and> startsWith cs ts)"

fun str_includes :: "string \<Rightarrow> string \<Rightarrow> bool" where
  "str_includes [] t = (t = [])"
| "str_includes (c # cs) t = (startsWith (c # cs) t \<or> str_includes cs t)"

definition trim :: "string \<Rightarrow> string" where
  "trim s = rev (dropWhile isWhiteSpace (rev (dropWhile isWhiteSpace s)))"

text \<open>
  \<open>toLowerCase\<close> and \<open>toUpperCase\<close> on the letters A to Z and on the accented
  letters of Latin-1 (C0 to DE without D7, against E0 to FE without F7).
\<close>

definition upperLetters :: string where
  "upperLetters = ''ABCDEFGHIJKLMNOPQRSTUVWXYZ'' @
     [
       CHR 0xC0, CHR 0xC1, CHR 0xC2, CHR 0xC3, CHR 0xC4, CHR 0xC5, CHR 0xC6, CHR 0xC7,
       CHR 0xC8, CHR 0xC9, CHR 0xCA, CHR 0xCB, CHR 0xCC, CHR 0xCD, CHR 0xCE, CHR 0xCF,
       CHR 0xD0, CHR 0xD1, CHR 0xD2, CHR 0xD3, CHR 0xD4, CHR 0xD5, CHR 0xD6, CHR 0xD8,
       CHR 0xD9, CHR 0xDA, CHR 0xDB, CHR 0xDC, CHR 0xDD, CHR 0xDE]"

definition lowerLetters :: string where
  "lowerLetters = ''abcdefghijklmnopqrstuvwxyz'' @
     [
       CHR 0xE0, CHR 0xE1, CHR 0xE2, CHR 0xE3, CHR 0xE4, CHR 0xE5, CHR 0xE6, CHR 0xE7,
       CHR 0xE8, CHR 0xE9, CHR 0xEA, CHR 0xEB, CHR 0xEC, CHR 0xED, CHR 0xEE, CHR 0xEF,
       CHR 0xF0, CHR 0xF1, CHR 0xF2, CHR 0xF3, CHR 0xF4, CHR 0xF5, CHR 0xF6, CHR 0xF8,
       CHR 0xF9, CHR 0xFA, CHR 0xFB, CHR 0xFC, CHR 0xFD, CHR 0xFE]"

definition toLowerChar :: "char \<Rightarrow> char" where
  "toLowerChar c = (case map_of (zip upperLetters lowerLetters) c of None \<Rightarrow> c | Some l \<Rightarrow> l)"

definition toLowerCase :: "string \<Rightarrow> string" where
  "toLowerCase s = map toLowerChar s"

definition toUpperChar :: "char \<Rightarrow> char" where
  "toUpperChar c = (case map_of (zip lowerLetters upperLetters) c of None \<Rightarrow> c | Some u \<Rightarrow> u)"

definition toUpperCase :: "string \<Rightarrow> string" where
  "toUpperCase s = map toUpperChar s"

text \<open>
  \<open>parseFloat\<close>: leading white space, an optional sign, digits with an optional fraction
  (or a fraction alone) and an optional exponent; whatever follows is ignored. \<open>None\<close> is
  NaN. The literal \<open>Infinity\<close>, which \<open>parseFloat\<close> also accepts, has no real value and
  is not recognised here.
\<close>

definition parseExponent :: "string \<Rightarrow> int" where
  "parseExponent r =
     (case r of
        [] \<Rightarrow> 0
      | c # r1 \<Rightarrow>
          if c = CHR ''e'' \<or> c = CHR ''E'' then
            (case r1 of
               [] \<Rightarrow> 0
             | sg # r2 \<Rightarrow>
                 if sg = CHR ''-'' then - int (digitsValue (takeWhile isDigit r2))
                 else if sg = CHR ''+'' then int (digitsValue (takeWhile isDigit r2))
                 else int (digitsValue (takeWhile isDigit r1)))
          else 0)"

definition parseFloat :: "string \<Rightarrow> real option" where
  "parseFloat s =
     (let s1 = dropWhile isWhiteSpace s;
          neg = (case s1 of [] \<Rightarrow> False | c # _ \<Rightarrow> c = CHR ''-'');
          s2 = (case s1 of [] \<Rightarrow> [] | c # r \<Rightarrow> if c = CHR ''-'' \<or> c = CHR ''+'' then r else s1);
          ip = takeWhile isDigit s2;
          r1 = dropWhile isDigit s2;
          hasDot = (case r1 of [] \<Rightarrow> False | c # _ \<Rightarrow> c = CHR ''.'');
          fp = (if hasDot then takeWhile isDigit (tl r1) else []);
          r2 = (if hasDot then dropWhile isDigit (tl r1) else r1)
      in if ip = [] \<and> fp = [] then None
         else
           let m = real (digitsValue ip) + real (digitsValue fp) / 10 ^ length fp;
               e = parseExponent r2;
               v = (if 0 \<le> e then m * 10 ^ nat e else m / 10 ^ nat (- e))
           in Some (if neg then - v else v))"

text \<open>
  \<open>parseInt(s, 10)\<close>: leading white space, an optional sign, digits; \<open>None\<close> is NaN.
\<close>

definition parseInt :: "string \<Rightarrow> int option" where
  "parseInt s =
     (let s1 = dropWhile isWhiteSpace s;
          neg = (case s1 of [] \<Rightarrow> False | c # _ \<Rightarrow> c = CHR ''-'');
          s2 = (case s1 of [] \<Rightarrow> [] | c # r \<Rightarrow> if c = CHR ''-'' \<or> c = CHR ''+'' then r else s1);
          ds = takeWhile isDigit s2
      in if ds = [] then None
         else Some (if neg then - int (digitsValue ds) else int (digitsValue ds)))"

text \<open>
  \<open>parsePrice\<close>, the same text in both scrapers. The three replacements:
  \<open>/[R$\s]/g\<close> removes every \<open>R\<close>, \<open>$\<close> and white space; \<open>/\.(?=\d{3})/g\<close> removes
  every full stop that three digits follow; \<open>replace(",", ".")\<close> turns the first comma
  into a full stop.
\<close>

definition removeCurrency :: "string \<Rightarrow> string" where
  "removeCurrency s = filter (\<lambda>c. \<not> (c = CHR ''R'' \<or> c = CHR ''$'' \<or> isWhiteSpace c)) s"

fun removeThousands :: "string \<Rightarrow> string" where
  "removeThousands [] = []"
| "removeThousands (c # cs) =
     (if c = CHR ''.'' \<and> length (takeWhile isDigit (take 3 cs)) = 3
      then removeThousands cs
      else c # removeThousands cs)"

fun replaceFirstComma :: "string \<Rightarrow> string" where
  "replaceFirstComma [] = []"
| "replaceFirstComma (c # cs) =
     (if c = CHR '','' then CHR ''.'' # cs else c # replaceFirstComma cs)"

definition cleanPrice :: "string \<Rightarrow> string" where
  "cleanPrice priceStr = replaceFirstComma (removeThousands (removeCurrency priceStr))"

definition parsePrice :: "string \<Rightarrow> real" where
  "parsePrice priceStr =
     (if priceStr = [] then 0
      else case parseFloat (cleanPrice priceStr) of
             None \<Rightarrow> 0
           | Some parsed \<Rightarrow> parsed)"


section \<open>Documents\<close>

text \<open>
  The scrapers read a page through cheerio. The library is outside the repository, so a
  loaded page is given by what its queries return: \<open>$(selector)\<close> is a list of cards in
  document order, and within a card \<open>$el.find(selector)\<close> is a list of elements, each
  with its text and its attributes. A selector is the key under which the page lists the
  matches; a selector that the page does not list matches nothing.
\<close>

record element =
  el_text :: string
  el_attrs :: "(string \<times> string) list"

record card =
  card_attrs :: "(string \<times> string) list"
  card_find :: "(string \<times> element list) list"

type_synonym document = "(string \<times> card list) list"

definition select :: "document \<Rightarrow> string \<Rightarrow> card list" where
  "select doc selector = (case map_of doc selector of None \<Rightarrow> [] | Some cs \<Rightarrow> cs)"

definition el_find :: "card \<Rightarrow> string \<Rightarrow> element list" where
  "el_find el selector = (case map_of (card_find el) selector of None \<Rightarrow> [] | Some es \<Rightarrow> es)"

text \<open>\<open>.first().text()\<close>, \<open>.last().text()\<close>, \<open>.first().attr(name)\<close>, \<open>x || ""\<close>.\<close>

definition first_text :: "element list \<Rightarrow> string" where
  "first_text es = (case es of [] \<Rightarrow> [] | e # _ \<Rightarrow> el_text e)"

definition last_text :: "element list \<Rightarrow> string" where
  "last_text es = (case rev es of [] \<Rightarrow> [] | e # _ \<Rightarrow> el_text e)"

definition first_attr :: "element list \<Rightarrow> string \<Rightarrow> string option" where
  "first_attr es name = (case es of [] \<Rightarrow> None | e # _ \<Rightarrow> map_of (el_attrs e) name)"

definition orEmpty :: "string option \<Rightarrow> string" where
  "orEmpty x = (case x of None \<Rightarrow> [] | Some s \<Rightarrow> s)"

text \<open>
  A loop \<open>for (const sel of sels) { x = f(sel); if (P(x)) break; }\<close> over the values
  \<open>f(sel)\<close>: the first value that satisfies \<open>P\<close>, else the last value, else the initial \<open>x\<close>.
\<close>

fun loopUntil :: "('a \<Rightarrow> bool) \<Rightarrow> 'a \<Rightarrow> 'a list \<Rightarrow> 'a" where
  "loopUntil P x [] = x"
| "loopUntil P x (v # vs) = (if P v then v else loopUntil P v vs)"

text \<open>\<open>s.split(", ")\<close>.\<close>

fun splitAcc :: "string \<Rightarrow> string \<Rightarrow> string list" where
  "splitAcc acc [] = [rev acc]"
| "splitAcc acc [c] = [rev (c # acc)]"
| "splitAcc acc (c # d # cs) =
     (if c = CHR '','' \<and> d = CHR '' '' then rev acc # splitAcc [] cs
      else splitAcc (c # acc) (d # cs))"

definition splitCommaSpace :: "string \<Rightarrow> string list" where
  "splitCommaSpace s = splitAcc [] s"

section \<open>The community scraper\<close>

record selector_set =
  sel_dealCard :: string
  sel_title :: string
  sel_price :: string
  sel_originalPrice :: string
  sel_discount :: string
  sel_link :: string
  sel_image :: string
  sel_upvotes :: string
  sel_category :: string

record community_source =
  src_name :: string
  src_url :: string
  src_selectors :: selector_set

definition COMMUNITY_SOURCES :: "community_source list" where
  \<open>COMMUNITY_SOURCES =
     [\<lparr> src_name = ''Pelando'',
        src_url = ''https://www.pelando.com.br/search?q=amazon'',
        src_selectors =
          \<lparr> sel_dealCard = ''[data-t="dealCard"], .sc-b0f6b0c2-0, .dealCard'',
            sel_title = ''[data-t="dealTitle"], .thread-title, .dealTitle'',
            sel_price = ''[data-t="dealPrice"], .dealPrice, .thread-price'',
            sel_originalPrice = ''[data-t="originalPrice"], .originalPrice, .thread-price-old'',
            sel_discount = ''[data-t="discount"], .discount-badge, .dealDiscount'',
            sel_link = ''a[href*="amazon"]'',
            sel_image = ''img[src*="amazon"], img[data-src*="amazon"]'',
            sel_upvotes = ''[data-t="voteCount"], .vote-count, .dealVotes'',
            sel_category = ''[data-t="category"], .category-tag, .threadCategory'' \<rparr> \<rparr>,
      \<lparr> src_name = ''Promobit'',
        src_url = ''https://www.promobit.com.br/promocoes/loja/amazon'',
        src_selectors =
          \<lparr> sel_dealCard = ''.offer-card, .promotion-card, [data-offer-id]'',
            sel_title = ''.offer-title, .promotion-title, h2 a'',
            sel_price = ''.offer-price, .price-current, .promotion-price'',
            sel_originalPrice = ''.offer-price-old, .price-old'',
            sel_discount = ''.offer-discount, .discount-tag'',
            sel_link = ''a[href*="amazon"]'',
            sel_image = ''img.offer-image, img.promotion-image'',
            sel_upvotes = ''.offer-votes, .vote-count'',
            sel_category = ''.offer-category, .category-name'' \<rparr> \<rparr>]\<close>

text \<open>\<open>Object.entries\<close> lists the categories in the order in which they are written.\<close>

definition CATEGORY_KEYWORDS :: "(string \<times> string list) list" where
  "CATEGORY_KEYWORDS =
     [
      (''electronics'', [
         (''eletr'' @ [CHR 0xF4] @ ''nico''), ''celular'', ''smartphone'', ''notebook'',
         ''tablet'', ''fone'', ''tv'', ''monitor'', ''ssd'', ''hd'', ''mouse'',
         ''teclado'', ''webcam'', (''c'' @ [CHR 0xE2] @ ''mera''), ''console'',
         ''playstation'', ''xbox'', ''switch'', ''gamer'']),
      (''home'', [
         ''casa'', ''cozinha'', (''eletrodom'' @ [CHR 0xE9] @ ''stico''), ''aspirador'',
         ''cafeteira'', ''liquidificador'', ''airfryer'', ''panela'',
         (''fog'' @ [CHR 0xE3] @ ''o''), ''geladeira'', ''micro-ondas'', ''ventilador'',
         ''ar condicionado'']),
      (''sports'', [
         ''esporte'', ''academia'', ''fitness'', ''bike'', ''bicicleta'',
         (''t'' @ [CHR 0xEA] @ ''nis''), ''corrida'', ''whey'', ''suplemento'',
         ''haltere'', ''esteira'']),
      (''toys'', [
         ''brinquedo'', ''lego'', ''boneca'', ''carrinho'', ''jogo'', ''nerf'', ''barbie'',
         ''hot wheels''])]"

subsection \<open>Regular expressions of the community scraper\<close>

definition isAlnum :: "char \<Rightarrow> bool" where
  "isAlnum c \<longleftrightarrow>
     c \<in> set ''ABCDEFGHIJKLMNOPQRSTUVWXYZabcdefghijklmnopqrstuvwxyz0123456789''"

text \<open>
  A pattern made of a literal, matched without regard to case, and a capture group: the
  leftmost place at which the literal stands and the group matches what follows it. The
  literal is given in lower case.
\<close>

fun matchAfter :: "string \<Rightarrow> (string \<Rightarrow> string option) \<Rightarrow> string \<Rightarrow> string option" where
  "matchAfter lit grab [] = (if lit = [] then grab [] else None)"
| "matchAfter lit grab (c # cs) =
     (if startsWith (toLowerCase (c # cs)) lit
      then (case grab (drop (length lit) (c # cs)) of
              Some g \<Rightarrow> Some g
            | None \<Rightarrow> matchAfter lit grab cs)
      else matchAfter lit grab cs)"

text \<open>The groups \<open>([A-Z0-9]{10})\<close> and \<open>([A-Za-z0-9]+)\<close> under the flag \<open>i\<close>, and \<open>([^&]+)\<close>.\<close>

definition alnum10 :: "string \<Rightarrow> string option" where
  "alnum10 r = (if length (takeWhile isAlnum (take 10 r)) = 10 then Some (take 10 r) else None)"

definition alnumRun :: "string \<Rightarrow> string option" where
  "alnumRun r = (let g = takeWhile isAlnum r in if g = [] then None else Some g)"

definition notAmpRun :: "string \<Rightarrow> string option" where
  "notAmpRun r = (let g = takeWhile (\<lambda>c. c \<noteq> CHR ''&'') r in if g = [] then None else Some g)"

text \<open>The group of \<open>/(\d+)/\<close>: the first run of digits.\<close>

definition firstDigits :: "string \<Rightarrow> string option" where
  "firstDigits s =
     (let r = dropWhile (\<lambda>c. \<not> isDigit c) s
      in if r = [] then None else Some (takeWhile isDigit r))"

definition extractAsin :: "string \<Rightarrow> string option" where
  "extractAsin url =
     (if url = [] then None
      else
        case List.find (\<lambda>m. case m of None \<Rightarrow> False | Some g \<Rightarrow> length g = 10)
               [matchAfter ''amazon.com.br/dp/'' alnum10 url,
                matchAfter ''amazon.com.br/gp/product/'' alnum10 url,
                matchAfter ''amzn.to/'' alnumRun url,
                matchAfter ''tag='' notAmpRun url] of
          Some (Some g) \<Rightarrow> Some (toUpperCase g)
        | _ \<Rightarrow> None)"

definition parseDiscount :: "string \<Rightarrow> real" where
  "parseDiscount discountStr =
     (if discountStr = [] then 0
      else case firstDigits discountStr of
             None \<Rightarrow> 0
           | Some ds \<Rightarrow> real (digitsValue ds))"

text \<open>\<open>parseInt(cleaned, 10) || 0\<close>: NaN and zero both give 0.\<close>

definition parseUpvotes :: "string \<Rightarrow> real" where
  "parseUpvotes voteStr =
     (if voteStr = [] then 0
      else case parseInt (filter (\<lambda>c. isDigit c \<or> c = CHR ''-'') voteStr) of
             None \<Rightarrow> 0
           | Some n \<Rightarrow> of_int n)"

definition normalizeCategory :: "string \<Rightarrow> string" where
  "normalizeCategory text =
     (let lower = toLowerCase text
      in case List.find (\<lambda>entry. list_ex (\<lambda>kw. str_includes lower kw) (snd entry))
                CATEGORY_KEYWORDS of
           Some entry \<Rightarrow> fst entry
         | None \<Rightarrow> ''other'')"

text \<open>The decimal digits of an integer, as a template literal prints it.\<close>

fun showNat :: "nat \<Rightarrow> string" where
  "showNat n =
     (if n < 10 then [''0123456789'' ! n]
      else showNat (n div 10) @ [''0123456789'' ! (n mod 10)])"

definition showInt :: "int \<Rightarrow> string" where
  "showInt i = (if i < 0 then CHR ''-'' # showNat (nat (- i)) else showNat (nat i))"

definition generateDealId :: "string \<Rightarrow> string \<Rightarrow> real \<Rightarrow> string" where
  "generateDealId src ttl prc =
     toLowerCase src @ ''-''
     @ take 20 (filter (\<lambda>c. c \<in> set ''abcdefghijklmnopqrstuvwxyz0123456789'') (toLowerCase ttl))
     @ ''-'' @ showInt \<lfloor>prc + 1 / 2\<rfloor>"

subsection \<open>One card\<close>

text \<open>
  The fields of a card, each read through the ordered selector list of the source. The
  loops of the callback of \<open>$(cardSelector).each\<close> are written one by one.
\<close>

definition cardTitle :: "selector_set \<Rightarrow> card \<Rightarrow> string" where
  "cardTitle sels el =
     loopUntil (\<lambda>t. t \<noteq> []) []
       (map (\<lambda>sel. trim (first_text (el_find el sel))) (splitCommaSpace (sel_title sels)))"

text \<open>
  The Amazon link: the first link selector whose \<open>href\<close> contains \<open>amazon\<close>, else the
  first of all links of the card whose \<open>href\<close> contains \<open>amazon\<close> or \<open>amzn\<close>, else empty.
\<close>

definition cardAmazonUrl :: "selector_set \<Rightarrow> card \<Rightarrow> string" where
  "cardAmazonUrl sels el =
     (let byLink = (case List.find (\<lambda>href. str_includes href ''amazon'')
                          (map (\<lambda>sel. orEmpty (first_attr (el_find el sel) ''href''))
                             (splitCommaSpace (sel_link sels))) of
                      None \<Rightarrow> [] | Some href \<Rightarrow> href)
      in if byLink = [] then
           (case List.find (\<lambda>href. str_includes href ''amazon'' \<or> str_includes href ''amzn'')
                   (map (\<lambda>link. orEmpty (map_of (el_attrs link) ''href'')) (el_find el ''a'')) of
              None \<Rightarrow> [] | Some href \<Rightarrow> href)
         else byLink)"

definition cardPrice :: "selector_set \<Rightarrow> card \<Rightarrow> real" where
  "cardPrice sels el =
     loopUntil (\<lambda>p. p > 0) 0
       (map (\<lambda>sel. parsePrice (first_text (el_find el sel))) (splitCommaSpace (sel_price sels)))"

definition cardOriginalPrice :: "selector_set \<Rightarrow> card \<Rightarrow> real" where
  "cardOriginalPrice sels el =
     loopUntil (\<lambda>p. p > 0) 0
       (map (\<lambda>sel. parsePrice (first_text (el_find el sel)))
          (splitCommaSpace (sel_originalPrice sels)))"

definition cardDiscountBadge :: "selector_set \<Rightarrow> card \<Rightarrow> real" where
  "cardDiscountBadge sels el =
     loopUntil (\<lambda>d. d > 0) 0
       (map (\<lambda>sel. parseDiscount (first_text (el_find el sel)))
          (splitCommaSpace (sel_discount sels)))"

text \<open>
  \<open>if (discount === 0 && originalPrice > price && price > 0) discount = Math.round(...)\<close>:
  the badge is read first, and the two prices are used only when the badge gave 0.
\<close>

definition dealDiscount :: "real \<Rightarrow> real \<Rightarrow> real \<Rightarrow> real" where
  "dealDiscount badge originalPrice' price' =
     (if badge = 0 \<and> originalPrice' > price' \<and> price' > 0
      then Math_round (((originalPrice' - price') / originalPrice') * 100)
      else badge)"

definition cardUpvotes :: "selector_set \<Rightarrow> card \<Rightarrow> real" where
  "cardUpvotes sels el =
     loopUntil (\<lambda>u. u \<noteq> 0) 0
       (map (\<lambda>sel. parseUpvotes (first_text (el_find el sel)))
          (splitCommaSpace (sel_upvotes sels)))"

text \<open>\<open>img.attr("src") || img.attr("data-src") || ""\<close>.\<close>

definition imgSource :: "element list \<Rightarrow> string" where
  "imgSource img =
     (case first_attr img ''src'' of
        Some s \<Rightarrow> if s \<noteq> [] then s else orEmpty (first_attr img ''data-src'')
      | None \<Rightarrow> orEmpty (first_attr img ''data-src''))"

definition cardImageUrl :: "selector_set \<Rightarrow> card \<Rightarrow> string" where
  "cardImageUrl sels el =
     (let bySelector = loopUntil (\<lambda>u. u \<noteq> []) []
                         (map (\<lambda>sel. imgSource (el_find el sel))
                            (splitCommaSpace (sel_image sels)))
      in if bySelector = [] then imgSource (el_find el ''img'') else bySelector)"

definition cardCategory :: "selector_set \<Rightarrow> card \<Rightarrow> string" where
  "cardCategory sels el =
     loopUntil (\<lambda>t. t \<noteq> []) []
       (map (\<lambda>sel. trim (first_text (el_find el sel))) (splitCommaSpace (sel_category sels)))"

text \<open>The deal built from a card whose title and Amazon link were found.\<close>

definition makeDeal :: "community_source \<Rightarrow> real \<Rightarrow> card \<Rightarrow> string \<Rightarrow> string \<Rightarrow> CommunityDeal" where
  "makeDeal src now el ttl amazonUrl' =
     (let sels = src_selectors src;
          asin' = extractAsin amazonUrl';
          price' = cardPrice sels el;
          originalPrice' = cardOriginalPrice sels el;
          discount' = dealDiscount (cardDiscountBadge sels el) originalPrice' price';
          category' = cardCategory sels el;
          dealUrl' = orEmpty (first_attr (el_find el ''a'') ''href'');
          deal =
            \<lparr> deal_id = (case asin' of
                           Some a \<Rightarrow> if a \<noteq> [] then a
                                     else generateDealId (src_name src) ttl price'
                         | None \<Rightarrow> generateDealId (src_name src) ttl price'),
              title = take 250 ttl,
              price = price',
              originalPrice = (if originalPrice' = 0 then None else Some originalPrice'),
              discount = discount',
              dealUrl = (if startsWith dealUrl' ''http'' then dealUrl'
                         else ''https://'' @ toLowerCase (src_name src) @ ''.com.br'' @ dealUrl'),
              amazonUrl = Some amazonUrl',
              asin = (case asin' of
                        Some a \<Rightarrow> if a \<noteq> [] then Some a else None
                      | None \<Rightarrow> None),
              imageUrl = cardImageUrl sels el,
              upvotes = cardUpvotes sels el,
              category = (if category' = [] then ''Geral'' else category'),
              normalizedCategory = normalizeCategory (ttl @ '' '' @ category'),
              source = src_name src,
              dealScore = 0,
              scrapedAt = now \<rparr>
      in deal\<lparr>dealScore := calculateDealScore deal\<rparr>)"

text \<open>
  The callback of \<open>$(cardSelector).each\<close>. Its state is the array \<open>deals\<close> and the set
  \<open>processedTitles\<close>; an early \<open>return\<close> leaves the state as it is at that point, so a
  card without an Amazon link has its title recorded all the same.
\<close>

definition scrapeDealCard ::
  "CommunityConfig \<Rightarrow> community_source \<Rightarrow> real \<Rightarrow> card
     \<Rightarrow> CommunityDeal list \<times> string list \<Rightarrow> CommunityDeal list \<times> string list"
where
  "scrapeDealCard cfg src now el st =
     (let ds = fst st; processedTitles = snd st; sels = src_selectors src in
      if length ds \<ge> MAX_PRODUCTS_PER_SOURCE cfg then st
      else
        let ttl = cardTitle sels el in
        if ttl = [] \<or> length ttl < 10 then st
        else
          let titleKey = take 50 (toLowerCase ttl) in
          if titleKey \<in> set processedTitles then st
          else
            let processed1 = processedTitles @ [titleKey];
                amazonUrl' = cardAmazonUrl sels el
            in if amazonUrl' = [] then (ds, processed1)
               else (ds @ [makeDeal src now el ttl amazonUrl'], processed1))"

subsection \<open>The card selectors\<close>

text \<open>
  \<open>for (const cardSelector of cardSelectors) { $(cardSelector).each(...);
  if (deals.length > 0) break; }\<close>
\<close>

fun scrapeDealSelectors ::
  "CommunityConfig \<Rightarrow> community_source \<Rightarrow> real \<Rightarrow> document \<Rightarrow> string list
     \<Rightarrow> CommunityDeal list \<times> string list \<Rightarrow> CommunityDeal list \<times> string list"
where
  "scrapeDealSelectors cfg src now doc [] st = st"
| "scrapeDealSelectors cfg src now doc (cardSelector # rest) st =
     (let st1 = fold (scrapeDealCard cfg src now) (select doc cardSelector) st
      in if length (fst st1) > 0 then st1
         else scrapeDealSelectors cfg src now doc rest st1)"

definition scrapeDealsFromHTML ::
  "CommunityConfig \<Rightarrow> real \<Rightarrow> document \<Rightarrow> community_source \<Rightarrow> CommunityDeal list"
where
  "scrapeDealsFromHTML cfg now doc src =
     fst (scrapeDealSelectors cfg src now doc
            (splitCommaSpace (sel_dealCard (src_selectors src))) ([], []))"

section \<open>The Amazon scraper\<close>

record amazon_source =
  as_url :: string
  as_category :: string
  as_type :: source_type

definition AMAZON_BASE :: string where
  "AMAZON_BASE = ''https://www.amazon.com.br''"

definition SCRAPE_SOURCES :: "amazon_source list" where
  "SCRAPE_SOURCES =
     [\<lparr> as_url = AMAZON_BASE @ ''/deals'', as_category = ''general'', as_type = deals \<rparr>,
      \<lparr> as_url = AMAZON_BASE @ ''/gp/bestsellers/electronics'', as_category = ''electronics'',
        as_type = bestsellers \<rparr>,
      \<lparr> as_url = AMAZON_BASE @ ''/gp/bestsellers/kitchen'', as_category = ''home'',
        as_type = bestsellers \<rparr>,
      \<lparr> as_url = AMAZON_BASE @ ''/gp/bestsellers/sports'', as_category = ''sports'',
        as_type = bestsellers \<rparr>,
      \<lparr> as_url = AMAZON_BASE @ ''/gp/bestsellers/toys'', as_category = ''toys'',
        as_type = bestsellers \<rparr>,
      \<lparr> as_url = AMAZON_BASE @ ''/gp/most-wished-for/electronics'', as_category = ''electronics'',
        as_type = bestsellers \<rparr>]"

definition CATEGORY_MAPPING :: "(string \<times> string list) list" where
  "CATEGORY_MAPPING =
     [
      (''electronics'', [
         (''Eletr'' @ [CHR 0xF4] @ ''nicos''),
         (''TV, '' @ [CHR 0xC1] @ ''udio e Cinema em Casa''),
         (''PC e Eletr'' @ [CHR 0xF4] @ ''nicos Port'' @ [CHR 0xE1] @ ''teis''),
         ''Celulares'', (''C'' @ [CHR 0xE2] @ ''mera e Fotografia''),
         ''Videogames e Consoles'',
         (''Acess'' @ [CHR 0xF3] @ ''rios para Eletr'' @ [CHR 0xF4] @ ''nicos''),
         (''Inform'' @ [CHR 0xE1] @ ''tica''), ''Games'', ''Computadores'', ''Tablets'',
         ''Fones de Ouvido'', ''Smart Home'', ''Wearables'']),
      (''home'', [
         ''Casa'', (''Eletrodom'' @ [CHR 0xE9] @ ''sticos de Linha Branca''),
         ''Cozinha, Jardim e Piscina'', (''M'' @ [CHR 0xF3] @ ''veis''),
         (''Ferramentas e Constru'' @ [CHR 0xE7] @ [CHR 0xE3] @ ''o''),
         (''Eletrodom'' @ [CHR 0xE9] @ ''sticos''), ''Cozinha'',
         (''Decora'' @ [CHR 0xE7] @ [CHR 0xE3] @ ''o''),
         (''Organiza'' @ [CHR 0xE7] @ [CHR 0xE3] @ ''o''), ''Limpeza'',
         (''Ilumina'' @ [CHR 0xE7] @ [CHR 0xE3] @ ''o'')]),
      (''sports'', [
         ''Esportes, Aventura e Lazer'', ''Esportes'', ''Academia'', ''Fitness'',
         ''Outdoor'', ''Camping'', ''Ciclismo'',
         (''Nata'' @ [CHR 0xE7] @ [CHR 0xE3] @ ''o''), ''Corrida'',
         (''Muscula'' @ [CHR 0xE7] @ [CHR 0xE3] @ ''o'')]),
      (''toys'', [
         ''Brinquedos e Jogos'', ''Brinquedos'', ''Games'', ''Jogos de Tabuleiro'',
         ''LEGO'', ''Bonecas'', ''Carrinhos'', (''Jogos Eletr'' @ [CHR 0xF4] @ ''nicos'')])]"

definition CATEGORY_ALIASES :: "(string \<times> string list) list" where
  "CATEGORY_ALIASES =
     [
      (''sports'', [
         ''esporte'', ''esportes'', ''academia'', ''fitness'', ''aventura'', ''outdoor'',
         ''camping'', ''ciclismo'', ''bike'', ''corrida'']),
      (''electronics'', [
         (''eletr'' @ [CHR 0xF4] @ ''nico''), ''eletronico'', ''tech'', ''tecnologia'',
         ''celular'', ''smartphone'', ''computador'', ''pc'', ''gamer'', ''notebook'',
         ''tablet'', ''fone'']),
      (''home'', [
         ''casa'', ''lar'', ''cozinha'', ''jardim'', (''m'' @ [CHR 0xF3] @ ''vel''),
         ''movel'', (''decora'' @ [CHR 0xE7] @ [CHR 0xE3] @ ''o''), ''decoracao'',
         ''eletrodomestico'', ''limpeza'']),
      (''toys'', [
         ''brinquedo'', ''brinquedos'', ''jogos'', ''infantil'',
         (''crian'' @ [CHR 0xE7] @ ''a''), ''lego'', ''boneca''])]"

text \<open>The exact labels first, the aliases second, \<open>other\<close> when neither matches.\<close>

definition p_normalizeCategory :: "string \<Rightarrow> string" where
  "p_normalizeCategory amazonCategory =
     (if amazonCategory = [] then ''other''
      else
        let lower = toLowerCase amazonCategory
        in case List.find (\<lambda>entry. list_ex (\<lambda>cat. str_includes lower (toLowerCase cat)) (snd entry))
                  CATEGORY_MAPPING of
             Some entry \<Rightarrow> fst entry
           | None \<Rightarrow>
               (case List.find (\<lambda>entry. list_ex (\<lambda>alias. str_includes lower alias) (snd entry))
                       CATEGORY_ALIASES of
                  Some entry \<Rightarrow> fst entry
                | None \<Rightarrow> ''other''))"

text \<open>
  \<open>extractAsin\<close> of the Amazon scraper: the first of its four patterns that matches.
\<close>

definition p_extractAsin :: "string \<Rightarrow> string option" where
  "p_extractAsin url =
     (if url = [] then None
      else
        case List.find (\<lambda>m. m \<noteq> None)
               [matchAfter ''/dp/'' alnum10 url,
                matchAfter ''/gp/product/'' alnum10 url,
                matchAfter ''/product/'' alnum10 url,
                matchAfter ''asin='' alnum10 url] of
          Some (Some g) \<Rightarrow> Some (toUpperCase g)
        | _ \<Rightarrow> None)"

text \<open>
  \<open>/(\d)[,.](\d)/\<close>: the leftmost digit, comma or full stop, digit; the rating is
  \<open>parseFloat\<close> of the two digits around a full stop.
\<close>

fun ratingMatch :: "string \<Rightarrow> (char \<times> char) option" where
  "ratingMatch (a # b # c # rest) =
     (if isDigit a \<and> (b = CHR '','' \<or> b = CHR ''.'') \<and> isDigit c then Some (a, c)
      else ratingMatch (b # c # rest))"
| "ratingMatch _ = None"

definition parseRating :: "string \<Rightarrow> real" where
  "parseRating ratingStr =
     (if ratingStr = [] then 0
      else case ratingMatch ratingStr of
             Some (a, c) \<Rightarrow> real (digitValue a) + real (digitValue c) / 10
           | None \<Rightarrow> 0)"

definition parseReviewCount :: "string \<Rightarrow> real" where
  "parseReviewCount reviewStr =
     (if reviewStr = [] then 0
      else case firstDigits (filter (\<lambda>c. \<not> (c = CHR ''.'' \<or> isWhiteSpace c)) reviewStr) of
             None \<Rightarrow> 0
           | Some ds \<Rightarrow> real (digitsValue ds))"

text \<open>
  The group of \<open>/(\d+)%/\<close>: the leftmost run of digits that a percent sign follows. The
  first argument holds the digits of the run being read, last digit first.
\<close>

fun percentScan :: "string \<Rightarrow> string \<Rightarrow> string option" where
  "percentScan acc [] = None"
| "percentScan acc (c # cs) =
     (if isDigit c then percentScan (c # acc) cs
      else if c = CHR ''%'' \<and> acc \<noteq> [] then Some (rev acc)
      else percentScan [] cs)"

subsection \<open>One product card\<close>

definition p_cardAsin :: "card \<Rightarrow> string" where
  \<open>p_cardAsin el =
     (let dataAsin = orEmpty (map_of (card_attrs el) ''data-asin'')
      in if dataAsin = [] then
           orEmpty (p_extractAsin
             (orEmpty (first_attr (el_find el ''a[href*='/dp/'], a[href*='/product/']'') ''href'')))
         else dataAsin)\<close>

definition titleSelectors :: "string list" where
  "titleSelectors =
     [''.p13n-sc-truncate'', ''._cDEzb_p13n-sc-css-line-clamp-3_g3dy1'', ''.a-link-normal span'',
      ''[data-a-dynamic-image]'', ''h2 a span'', ''.a-size-base-plus'', ''img[alt]'']"

definition p_cardTitle :: "card \<Rightarrow> string" where
  "p_cardTitle el =
     (let bySelector = (case List.find (\<lambda>t. t \<noteq> [] \<and> length t > 5)
                              (map (\<lambda>titleSel. trim (first_text (el_find el titleSel)))
                                 titleSelectors) of
                          None \<Rightarrow> [] | Some t \<Rightarrow> t)
      in if bySelector = [] then orEmpty (first_attr (el_find el ''img'') ''alt'')
         else bySelector)"

definition priceSelectors :: "string list" where
  \<open>priceSelectors =
     [''.a-price .a-offscreen'', ''.p13n-sc-price'', ''.a-color-price'',
      ''[data-a-color='price'] .a-offscreen'']\<close>

definition p_cardPrice :: "card \<Rightarrow> real" where
  "p_cardPrice el =
     loopUntil (\<lambda>p. p > 0) 0
       (map (\<lambda>priceSel. parsePrice (first_text (el_find el priceSel))) priceSelectors)"

definition p_cardOriginalPrice :: "card \<Rightarrow> real" where
  "p_cardOriginalPrice el =
     parsePrice (first_text
       (el_find el ''.a-text-price .a-offscreen, .a-price[data-a-strike] .a-offscreen''))"

definition p_cardBadgeText :: "card \<Rightarrow> string" where
  "p_cardBadgeText el = first_text (el_find el ''.a-badge-text, .savingsPercentage'')"

text \<open>
  The discount of a product: computed from the two prices first; the badge is read only
  when that gave 0.
\<close>

definition productDiscount :: "real \<Rightarrow> real \<Rightarrow> string \<Rightarrow> real" where
  "productDiscount originalPrice' price' discountText =
     (let computed = (if originalPrice' > price' \<and> price' > 0
                      then Math_round (((originalPrice' - price') / originalPrice') * 100)
                      else 0)
      in if computed = 0 then
           (case percentScan [] discountText of
              Some ds \<Rightarrow> real (digitsValue ds)
            | None \<Rightarrow> computed)
         else computed)"

text \<open>
  The image: \<open>src\<close>, else \<open>data-src\<close>, replaced by the first key of the JSON object in
  \<open>data-a-dynamic-image\<close> when that attribute parses to an object with a key. The
  argument \<open>jsonFirstKey\<close> stands for \<open>Object.keys(JSON.parse(s))[0]\<close>: \<open>None\<close> when
  \<open>JSON.parse\<close> throws or the object has no key.
\<close>

definition p_cardImageUrl :: "(string \<Rightarrow> string option) \<Rightarrow> card \<Rightarrow> string" where
  "p_cardImageUrl jsonFirstKey el =
     (let imgEl = el_find el ''img'';
          imageUrl0 = imgSource imgEl
      in case first_attr imgEl ''data-a-dynamic-image'' of
           None \<Rightarrow> imageUrl0
         | Some dynamicImage \<Rightarrow>
             if dynamicImage = [] then imageUrl0
             else (case jsonFirstKey dynamicImage of None \<Rightarrow> imageUrl0 | Some u \<Rightarrow> u))"

definition p_cardRatingText :: "card \<Rightarrow> string" where
  \<open>p_cardRatingText el =
     (let byText = first_text (el_find el ''.a-icon-alt, [aria-label*='estrela']'')
      in if byText = [] then
           orEmpty (first_attr (el_find el ''.a-icon-alt, [aria-label*='star']'') ''aria-label'')
         else byText)\<close>

definition p_cardReviewText :: "card \<Rightarrow> string" where
  "p_cardReviewText el =
     last_text (el_find el ''.a-size-small span[aria-label], .a-link-normal .a-size-small'')"

definition makeProduct ::
  "(string \<Rightarrow> string option) \<Rightarrow> string \<Rightarrow> source_type \<Rightarrow> real \<Rightarrow> card \<Rightarrow> string \<Rightarrow> string
     \<Rightarrow> ScrapedProduct"
where
  "makeProduct jsonFirstKey category' source' now el asin' ttl =
     (let price' = p_cardPrice el;
          originalPrice' = p_cardOriginalPrice el;
          productCategory = (if category' = ''general'' then p_normalizeCategory ttl else category');
          product =
            \<lparr> p_asin = asin',
              p_title = take 250 ttl,
              p_price = price',
              p_originalPrice = (if originalPrice' = 0 then None else Some originalPrice'),
              p_discount = productDiscount originalPrice' price' (p_cardBadgeText el),
              p_imageUrl = p_cardImageUrl jsonFirstKey el,
              p_productUrl = AMAZON_BASE @ ''/dp/'' @ asin',
              p_rating = parseRating (p_cardRatingText el),
              p_reviewCount = parseReviewCount (p_cardReviewText el),
              p_category = productCategory,
              p_normalizedCategory = p_normalizeCategory productCategory,
              p_dealScore = 0,
              p_source = source',
              p_scrapedAt = now \<rparr>
      in product\<lparr>p_dealScore := p_calculateDealScore product\<rparr>)"

text \<open>
  The callback of \<open>$(selector).each\<close>; its state is the array \<open>products\<close> and the set
  \<open>processedAsins\<close>.
\<close>

definition scrapeProductCard ::
  "AmazonConfig \<Rightarrow> (string \<Rightarrow> string option) \<Rightarrow> string \<Rightarrow> source_type \<Rightarrow> real \<Rightarrow> card
     \<Rightarrow> ScrapedProduct list \<times> string list \<Rightarrow> ScrapedProduct list \<times> string list"
where
  "scrapeProductCard cfg jsonFirstKey category' source' now el st =
     (let products = fst st; processedAsins = snd st in
      if length products \<ge> p_MAX_PRODUCTS_PER_SOURCE cfg then st
      else
        let asin' = p_cardAsin el in
        if asin' = [] \<or> length asin' \<noteq> 10 \<or> asin' \<in> set processedAsins then st
        else
          let processed1 = processedAsins @ [asin'];
              ttl = p_cardTitle el
          in if ttl = [] \<or> length ttl < 5 then (products, processed1)
             else (products @ [makeProduct jsonFirstKey category' source' now el asin' ttl],
                   processed1))"

subsection \<open>The product card selectors\<close>

definition productCardSelectors :: "string list" where
  \<open>productCardSelectors =
     [''[data-asin]:not([data-asin=""])'', ''.zg-item-immersion'',
      ''.p13n-sc-uncoverable-faceout'', ''[data-deal-id]'', ''.DealCard-module__card'',
      ''.s-result-item[data-asin]'', ''.octopus-pc-item'']\<close>

text \<open>
  \<open>for (const selector of selectors) { $(selector).each(...);
  if (products.length >= CONFIG.MAX_PRODUCTS_PER_SOURCE) break; }\<close>
\<close>

fun scrapeProductSelectors ::
  "AmazonConfig \<Rightarrow> (string \<Rightarrow> string option) \<Rightarrow> string \<Rightarrow> source_type \<Rightarrow> real \<Rightarrow> document
     \<Rightarrow> string list \<Rightarrow> ScrapedProduct list \<times> string list \<Rightarrow> ScrapedProduct list \<times> string list"
where
  "scrapeProductSelectors cfg jsonFirstKey category' source' now doc [] st = st"
| "scrapeProductSelectors cfg jsonFirstKey category' source' now doc (selector # rest) st =
     (let st1 = fold (scrapeProductCard cfg jsonFirstKey category' source' now)
                  (select doc selector) st
      in if length (fst st1) \<ge> p_MAX_PRODUCTS_PER_SOURCE cfg then st1
         else scrapeProductSelectors cfg jsonFirstKey category' source' now doc rest st1)"

definition scrapeProductsFromHTML ::
  "AmazonConfig \<Rightarrow> (string \<Rightarrow> string option) \<Rightarrow> real \<Rightarrow> document \<Rightarrow> string \<Rightarrow> source_type
     \<Rightarrow> ScrapedProduct list"
where
  "scrapeProductsFromHTML cfg jsonFirstKey now doc category' source' =
     fst (scrapeProductSelectors cfg jsonFirstKey category' source' now doc
            productCardSelectors ([], []))"



section \<open>Fetching under a request budget\<close>

text \<open>
  The network is outside the program. A request either yields a body with an OK status or
  fails (a status that is not OK, a timeout that aborts the request, a network error); the
  catch block of \<open>fetchWithRetry\<close> treats all failures alike and keeps their message.
  The answer to a request is given by the URL and by the number the request has within the
  session, which is \<open>stats.requestCount\<close> right after its increment.
\<close>

datatype response = Ok string | Failed string

type_synonym network = "string \<Rightarrow> nat \<Rightarrow> response"

text \<open>
  What a session does besides computing: the requests it sends, its pauses, and the console
  lines that tell a skipped URL, a source being scraped and the end of the budget.
\<close>

datatype event =
  Fetching string
| Skipping string
| Sleep nat
| RandomDelay nat nat
| Scraping string
| LimitReached

record ScrapeStats =
  requestCount :: nat
  dealsFound :: nat
  errors :: "string list"
  startTime :: real

text \<open>
  The loop \<open>for (let attempt = 1; attempt <= CONFIG.MAX_RETRIES; attempt++)\<close> of the
  community scraper, from a given attempt on.
\<close>

function fetchAttempts ::
  "CommunityConfig \<Rightarrow> network \<Rightarrow> string \<Rightarrow> nat \<Rightarrow> ScrapeStats \<times> event list
     \<Rightarrow> string option \<times> ScrapeStats \<times> event list"
where
  "fetchAttempts cfg net url attempt (stats, evs) =
     (if attempt \<le> MAX_RETRIES cfg then
        (let stats1 = stats\<lparr>requestCount := requestCount stats + 1\<rparr>;
             evs1 = evs @ [Fetching url]
         in case net url (requestCount stats1) of
              Ok html \<Rightarrow> (Some html, stats1, evs1)
            | Failed errorMsg \<Rightarrow>
                if attempt < MAX_RETRIES cfg
                then fetchAttempts cfg net url (attempt + 1)
                       (stats1, evs1 @ [Sleep (RETRY_DELAY_MS cfg * attempt)])
                else fetchAttempts cfg net url (attempt + 1)
                       (stats1\<lparr>errors := errors stats1
                                  @ [''Failed to fetch '' @ url @ '': '' @ errorMsg]\<rparr>,
                        evs1))
      else (None, stats, evs))"
  by pat_completeness auto
termination
  by (relation "measure (\<lambda>(cfg, net, url, attempt, st). MAX_RETRIES cfg + 1 - attempt)") auto

declare fetchAttempts.simps [simp del]

definition fetchWithRetry ::
  "CommunityConfig \<Rightarrow> network \<Rightarrow> string \<Rightarrow> ScrapeStats \<times> event list
     \<Rightarrow> string option \<times> ScrapeStats \<times> event list"
where
  "fetchWithRetry cfg net url st =
     (if requestCount (fst st) \<ge> MAX_REQUESTS cfg
      then (None, fst st, snd st @ [Skipping url])
      else fetchAttempts cfg net url 1 st)"

text \<open>
  The Amazon scraper has the same loop and, on a body with an OK status, looks for signs
  of bot detection.
\<close>

record p_ScrapeStats =
  p_requestCount :: nat
  productsFound :: nat
  p_errors :: "string list"
  p_startTime :: real

function p_fetchAttempts ::
  "AmazonConfig \<Rightarrow> network \<Rightarrow> string \<Rightarrow> nat \<Rightarrow> p_ScrapeStats \<times> event list
     \<Rightarrow> string option \<times> p_ScrapeStats \<times> event list"
where
  "p_fetchAttempts cfg net url attempt (stats, evs) =
     (if attempt \<le> p_MAX_RETRIES cfg then
        (let stats1 = stats\<lparr>p_requestCount := p_requestCount stats + 1\<rparr>;
             evs1 = evs @ [Fetching url]
         in case net url (p_requestCount stats1) of
              Ok html \<Rightarrow>
                if str_includes html ''captcha'' \<or> str_includes html ''robot''
                   \<or> str_includes html ''automated''
                then (None,
                      stats1\<lparr>p_errors := p_errors stats1 @ [''Bot detection on '' @ url]\<rparr>,
                      evs1 @ [Sleep (p_RETRY_DELAY_MS cfg * 2)])
                else (Some html, stats1, evs1)
            | Failed errorMsg \<Rightarrow>
                if attempt < p_MAX_RETRIES cfg
                then p_fetchAttempts cfg net url (attempt + 1)
                       (stats1, evs1 @ [Sleep (p_RETRY_DELAY_MS cfg * attempt)])
                else p_fetchAttempts cfg net url (attempt + 1)
                       (stats1\<lparr>p_errors := p_errors stats1
                                  @ [''Failed to fetch '' @ url @ '': '' @ errorMsg]\<rparr>,
                        evs1))
      else (None, stats, evs))"
  by pat_completeness auto
termination
  by (relation "measure (\<lambda>(cfg, net, url, attempt, st). p_MAX_RETRIES cfg + 1 - attempt)") auto

declare p_fetchAttempts.simps [simp del]

definition p_fetchWithRetry ::
  "AmazonConfig \<Rightarrow> network \<Rightarrow> string \<Rightarrow> p_ScrapeStats \<times> event list
     \<Rightarrow> string option \<times> p_ScrapeStats \<times> event list"
where
  "p_fetchWithRetry cfg net url st =
     (if p_requestCount (fst st) \<ge> p_MAX_REQUESTS_PER_SESSION cfg
      then (None, fst st, snd st @ [Skipping url])
      else p_fetchAttempts cfg net url 1 st)"

section \<open>Discovery\<close>

text \<open>
  What a discovery run takes from outside: the network, cheerio's parser, the JSON reader
  of the image attribute and the clock, read as one value for the run.
\<close>

record environment =
  env_net :: network
  cheerio_load :: "string \<Rightarrow> document"
  json_first_key :: "string \<Rightarrow> string option"
  date_now :: real

text \<open>
  The body of the loop over the sources of \<open>discoverCommunityDeals\<close>, after its test of
  the budget: fetch, scrape, count, pause. \<open>if (html)\<close> is false of \<open>null\<close> and of the
  empty string.
\<close>

definition scrapeCommunitySource ::
  "CommunityConfig \<Rightarrow> environment \<Rightarrow> community_source
     \<Rightarrow> CommunityDeal list \<times> ScrapeStats \<times> event list
     \<Rightarrow> CommunityDeal list \<times> ScrapeStats \<times> event list"
where
  "scrapeCommunitySource cfg env src st =
     (case st of (allDeals, stats, evs) \<Rightarrow>
        case fetchWithRetry cfg (env_net env) (src_url src)
               (stats, evs @ [Scraping (src_name src)]) of
          (html, stats1, evs1) \<Rightarrow>
            let found = (case html of
                           None \<Rightarrow> []
                         | Some h \<Rightarrow>
                             if h = [] then []
                             else scrapeDealsFromHTML cfg (date_now env) (cheerio_load env h) src);
                stats2 = (if html = None \<or> html = Some [] then stats1
                          else stats1\<lparr>dealsFound := dealsFound stats1 + length found\<rparr>);
                evs2 = (if requestCount stats2 < MAX_REQUESTS cfg
                        then evs1 @ [RandomDelay (DELAY_MIN_MS cfg) (DELAY_MAX_MS cfg)]
                        else evs1)
            in (allDeals @ found, stats2, evs2))"

text \<open>
  The loop: \<open>if (stats.requestCount >= CONFIG.MAX_REQUESTS) break;\<close> comes first in its
  body.
\<close>

fun scrapeCommunitySources ::
  "CommunityConfig \<Rightarrow> environment \<Rightarrow> community_source list
     \<Rightarrow> CommunityDeal list \<times> ScrapeStats \<times> event list
     \<Rightarrow> CommunityDeal list \<times> ScrapeStats \<times> event list"
where
  "scrapeCommunitySources cfg env [] st = st"
| "scrapeCommunitySources cfg env (src # rest) st =
     (if requestCount (fst (snd st)) \<ge> MAX_REQUESTS cfg
      then (fst st, fst (snd st), snd (snd st) @ [LimitReached])
      else scrapeCommunitySources cfg env rest (scrapeCommunitySource cfg env src st))"

text \<open>
  \<open>limit = 20\<close>: the default of the parameter. The limit is an integer, as \<open>parseInt\<close>
  gives it to the HTTP trigger; the trigger passes a negative one on unchanged.
\<close>

definition limitOrDefault :: "int option \<Rightarrow> int" where
  "limitOrDefault limit = (case limit of None \<Rightarrow> 20 | Some l \<Rightarrow> l)"

text \<open>
  \<open>discoverCommunityDeals\<close>, over a given list of sources (\<open>COMMUNITY_SOURCES\<close> in the
  source); it returns the top deals, and the statistics and events of the session with them.
\<close>

definition discoverCommunityDeals ::
  "CommunityConfig \<Rightarrow> environment \<Rightarrow> community_source list \<Rightarrow> int option
     \<Rightarrow> CommunityDeal list \<times> ScrapeStats \<times> event list"
where
  "discoverCommunityDeals cfg env sources limit =
     (case scrapeCommunitySources cfg env sources
             ([], \<lparr>requestCount = 0, dealsFound = 0, errors = [], startTime = date_now env\<rparr>, []) of
        (allDeals, stats, evs) \<Rightarrow>
          (postProcessDeals cfg (limitOrDefault limit) allDeals, stats, evs))"

text \<open>
  The body of the loop of \<open>discoverProducts\<close>; its pause is left out after the last
  source as well (\<open>SCRAPE_SOURCES.indexOf(source) < SCRAPE_SOURCES.length - 1\<close>), which
  the argument \<open>isLast\<close> tells.
\<close>

definition scrapeAmazonSource ::
  "AmazonConfig \<Rightarrow> environment \<Rightarrow> amazon_source \<Rightarrow> bool
     \<Rightarrow> ScrapedProduct list \<times> p_ScrapeStats \<times> event list
     \<Rightarrow> ScrapedProduct list \<times> p_ScrapeStats \<times> event list"
where
  "scrapeAmazonSource cfg env src isLast st =
     (case st of (allProducts, stats, evs) \<Rightarrow>
        case p_fetchWithRetry cfg (env_net env) (as_url src)
               (stats, evs @ [Scraping (as_url src)]) of
          (html, stats1, evs1) \<Rightarrow>
            let found = (case html of
                           None \<Rightarrow> []
                         | Some h \<Rightarrow>
                             if h = [] then []
                             else scrapeProductsFromHTML cfg (json_first_key env) (date_now env)
                                    (cheerio_load env h) (as_category src) (as_type src));
                stats2 = (if html = None \<or> html = Some [] then stats1
                          else stats1\<lparr>productsFound := productsFound stats1 + length found\<rparr>);
                evs2 = (if p_requestCount stats2 < p_MAX_REQUESTS_PER_SESSION cfg \<and> \<not> isLast
                        then evs1 @ [RandomDelay (p_DELAY_MIN_MS cfg) (p_DELAY_MAX_MS cfg)]
                        else evs1)
            in (allProducts @ found, stats2, evs2))"

fun scrapeAmazonSources ::
  "AmazonConfig \<Rightarrow> environment \<Rightarrow> amazon_source list
     \<Rightarrow> ScrapedProduct list \<times> p_ScrapeStats \<times> event list
     \<Rightarrow> ScrapedProduct list \<times> p_ScrapeStats \<times> event list"
where
  "scrapeAmazonSources cfg env [] st = st"
| "scrapeAmazonSources cfg env (src # rest) st =
     (if p_requestCount (fst (snd st)) \<ge> p_MAX_REQUESTS_PER_SESSION cfg
      then (fst st, fst (snd st), snd (snd st) @ [LimitReached])
      else scrapeAmazonSources cfg env rest (scrapeAmazonSource cfg env src (rest = []) st))"

definition discoverProducts ::
  "AmazonConfig \<Rightarrow> environment \<Rightarrow> amazon_source list \<Rightarrow> int option
     \<Rightarrow> ScrapedProduct list \<times> p_ScrapeStats \<times> event list"
where
  "discoverProducts cfg env sources limit =
     (case scrapeAmazonSources cfg env sources
             ([], \<lparr>p_requestCount = 0, productsFound = 0, p_errors = [],
                   p_startTime = date_now env\<rparr>, []) of
        (allProducts, stats, evs) \<Rightarrow>
          (postProcessProducts cfg (limitOrDefault limit) allProducts, stats, evs))"

text \<open>The sources of a session that were scraped, in the order of the console lines.\<close>

definition scrapedSources :: "event list \<Rightarrow> string list" where
  "scrapedSources evs = concat (map (\<lambda>e. case e of Scraping n \<Rightarrow> [n] | _ \<Rightarrow> []) evs)"

section \<open>Sample sessions\<close>

text \<open>
  An environment around a given network: cheerio finds no card in any page, the JSON
  reader finds no key, the clock stands at 0.
\<close>

definition noJsonKey :: "string \<Rightarrow> string option" where
  "noJsonKey s = None"

definition sampleEnv :: "network \<Rightarrow> environment" where
  "sampleEnv net =
     \<lparr> env_net = net, cheerio_load = (\<lambda>html. []), json_first_key = noJsonKey, date_now = 0 \<rparr>"

text \<open>Three networks: every request fails; every request but the first fails; only the first fails.\<close>

definition failingNet :: network where
  "failingNet url n = Failed ''timeout''"

definition failingAfterFirstNet :: network where
  "failingAfterFirstNet url n = (if n = 1 then Ok ''<html></html>'' else Failed ''timeout'')"

definition retryOnceNet :: network where
  "retryOnceNet url n = (if n = 1 then Failed ''HTTP 503: Service Unavailable'' else Ok ''<html></html>'')"

definition okNet :: network where
  "okNet url n = Ok ''<html></html>''"

text \<open>Five community sources and a budget of two requests.\<close>

definition fiveSources :: "community_source list" where
  "fiveSources =
     COMMUNITY_SOURCES
     @ map (\<lambda>n. (COMMUNITY_SOURCES ! 1)\<lparr>src_name := n, src_url := ''https://'' @ n\<rparr>)
         [''Gatry'', ''Hardmob'', ''Promoforum'']"

definition budgetTwo :: CommunityConfig where
  "budgetTwo = CONFIG\<lparr>MAX_REQUESTS := 2\<rparr>"

section \<open>Sample pages\<close>





section \<open>Evaluating the parsers\<close>



section \<open>Deduplication keeps the best listing of each identifier\<close>

lemma map_fst_map_set:
  "map fst (map_set m k v) = (if k \<in> fst ` set m then map fst m else map fst m @ [k])"
  by (induction m) (force simp: image_iff)+

lemma map_of_map_set: "map_of (map_set m k v) = (map_of m)(k \<mapsto> v)"
  by (induction m) (auto simp: fun_eq_iff)

lemma set_map_set:
  "distinct (map fst m) \<Longrightarrow>
   set (map_set m k v) = insert (k, v) {kv \<in> set m. fst kv \<noteq> k}"
proof (induction m)
  case Nil
  then show ?case by simp
next
  case (Cons a m)
  obtain k' v' where a: "a = (k', v')" by (cases a)
  show ?case
  proof (cases "k' = k")
    case True
    with Cons.prems a have "\<forall>kv \<in> set m. fst kv \<noteq> k" by (auto simp: image_iff)
    with True a show ?thesis by auto
  next
    case False
    with Cons a show ?thesis by auto
  qed
qed

lemma bestOfGroup_snoc_other:
  assumes "bestOfGroup key score xs d" and "key e \<noteq> key d \<or> score e \<le> score d"
  shows "bestOfGroup key score (xs @ [e]) d"
proof -
  from assms(1) obtain before after where
    xs: "xs = before @ d # after" and
    b: "\<forall>x \<in> set before. key x = key d \<longrightarrow> score x < score d" and
    a: "\<forall>x \<in> set after. key x = key d \<longrightarrow> score x \<le> score d"
    unfolding bestOfGroup_def by blast
  have "xs @ [e] = before @ d # (after @ [e])" using xs by simp
  moreover have "\<forall>x \<in> set (after @ [e]). key x = key d \<longrightarrow> score x \<le> score d"
    using a assms(2) by auto
  ultimately show ?thesis unfolding bestOfGroup_def using b by blast
qed

lemma bestOfGroup_snoc_new:
  assumes "\<forall>x \<in> set xs. key x = key e \<longrightarrow> score x < score e"
  shows "bestOfGroup key score (xs @ [e]) e"
proof -
  have "xs @ [e] = xs @ e # []" by simp
  then show ?thesis unfolding bestOfGroup_def using assms by fastforce
qed

lemma bestOfGroup_max:
  assumes "bestOfGroup key score xs d" and "x \<in> set xs" and "key x = key d"
  shows "score x \<le> score d"
proof -
  from assms(1) obtain before after where
    xs: "xs = before @ d # after" and
    b: "\<forall>x \<in> set before. key x = key d \<longrightarrow> score x < score d" and
    a: "\<forall>x \<in> set after. key x = key d \<longrightarrow> score x \<le> score d"
    unfolding bestOfGroup_def by blast
  from assms(2) xs have "x \<in> set before \<or> x = d \<or> x \<in> set after" by auto
  with a b assms(3) show ?thesis by force
qed

lemma dedupInv_step_new:
  assumes inv: "dedupInv key score seen ps" and new: "map_of seen (key e) = None"
  shows "dedupInv key score (map_set seen (key e) e) (ps @ [e])"
proof -
  from inv have dist: "distinct (map fst seen)"
    and keys: "fst ` set seen = key ` set ps"
    and vals: "\<forall>(k, v) \<in> set seen. key v = k \<and> bestOfGroup key score ps v"
    unfolding dedupInv_def by auto
  from new have notin: "key e \<notin> fst ` set seen" by (simp add: map_of_eq_None_iff)
  have d': "distinct (map fst (map_set seen (key e) e))"
    using dist notin by (simp add: map_fst_map_set)
  have s': "set (map_set seen (key e) e) = insert (key e, e) (set seen)"
    using notin by (auto simp: set_map_set [OF dist] image_iff)
  have k': "fst ` set (map_set seen (key e) e) = key ` set (ps @ [e])"
    using keys by (auto simp: s')
  have fresh: "\<forall>x \<in> set ps. key x \<noteq> key e"
  proof -
    have "key e \<notin> key ` set ps" using notin keys by simp
    then show ?thesis by (metis imageI)
  qed
  have e': "bestOfGroup key score (ps @ [e]) e"
    by (rule bestOfGroup_snoc_new) (use fresh in auto)
  have old: "bestOfGroup key score (ps @ [e]) v" if "(k, v) \<in> set seen" for k v
  proof -
    from that vals have kv: "key v = k" and b: "bestOfGroup key score ps v" by auto
    from that notin have "k \<noteq> key e" by (auto simp: image_iff)
    with kv b show ?thesis by (intro bestOfGroup_snoc_other) auto
  qed
  show ?thesis
    unfolding dedupInv_def using d' k' e' old vals by (auto simp: s')
qed

lemma dedupInv_step_replace:
  assumes inv: "dedupInv key score seen ps" and ex: "map_of seen (key e) = Some x"
    and gt: "score x < score e"
  shows "dedupInv key score (map_set seen (key e) e) (ps @ [e])"
proof -
  from inv have dist: "distinct (map fst seen)"
    and keys: "fst ` set seen = key ` set ps"
    and vals: "\<forall>(k, v) \<in> set seen. key v = k \<and> bestOfGroup key score ps v"
    unfolding dedupInv_def by auto
  from ex have xin: "(key e, x) \<in> set seen" by (rule map_of_SomeD)
  then have isin: "key e \<in> fst ` set seen" by (force simp: image_iff)
  from xin vals have kx: "key x = key e" and bx: "bestOfGroup key score ps x" by auto
  have d': "distinct (map fst (map_set seen (key e) e))"
    using dist isin by (simp add: map_fst_map_set)
  have s': "set (map_set seen (key e) e) = insert (key e, e) {kv \<in> set seen. fst kv \<noteq> key e}"
    by (rule set_map_set [OF dist])
  have k': "fst ` set (map_set seen (key e) e) = key ` set (ps @ [e])"
  proof -
    have "fst ` set (map_set seen (key e) e) = insert (key e) (fst ` set seen)"
      using isin unfolding s' by (auto simp: image_iff)
    then show ?thesis using keys by auto
  qed
  have lower: "\<forall>y \<in> set ps. key y = key e \<longrightarrow> score y < score e"
  proof (intro ballI impI)
    fix y assume "y \<in> set ps" and "key y = key e"
    with bx kx have "score y \<le> score x" by (intro bestOfGroup_max [of key score ps x y]) auto
    with gt show "score y < score e" by simp
  qed
  have e': "bestOfGroup key score (ps @ [e]) e"
    by (rule bestOfGroup_snoc_new) (use lower in auto)
  have old: "bestOfGroup key score (ps @ [e]) v" if "(k, v) \<in> set seen" and "k \<noteq> key e" for k v
  proof -
    from that vals have kv: "key v = k" and b: "bestOfGroup key score ps v" by auto
    with that(2) show ?thesis by (intro bestOfGroup_snoc_other) auto
  qed
  show ?thesis
    unfolding dedupInv_def using d' k' e' old vals by (auto simp: s')
qed

lemma dedupInv_step_keep:
  assumes inv: "dedupInv key score seen ps" and ex: "map_of seen (key e) = Some x"
    and le: "\<not> score x < score e"
  shows "dedupInv key score seen (ps @ [e])"
proof -
  from inv have dist: "distinct (map fst seen)"
    and keys: "fst ` set seen = key ` set ps"
    and vals: "\<forall>(k, v) \<in> set seen. key v = k \<and> bestOfGroup key score ps v"
    unfolding dedupInv_def by auto
  from ex have xin: "(key e, x) \<in> set seen" by (rule map_of_SomeD)
  then have isin: "key e \<in> fst ` set seen" by (force simp: image_iff)
  have k': "fst ` set seen = key ` set (ps @ [e])"
    using keys isin by auto
  have old: "bestOfGroup key score (ps @ [e]) v" if "(k, v) \<in> set seen" for k v
  proof -
    from that vals have kv: "key v = k" and b: "bestOfGroup key score ps v" by auto
    show ?thesis
    proof (cases "k = key e")
      case True
      with that xin dist have "v = x" by (metis eq_key_imp_eq_value)
      with le b show ?thesis by (intro bestOfGroup_snoc_other) auto
    next
      case False
      with kv b show ?thesis by (intro bestOfGroup_snoc_other) auto
    qed
  qed
  show ?thesis
    unfolding dedupInv_def using dist k' old vals by auto
qed

lemma dedupInv_loop:
  "dedupInv key score seen ps \<Longrightarrow> dedupInv key score (dedupLoop key score seen rest) (ps @ rest)"
proof (induction rest arbitrary: seen ps)
  case Nil
  then show ?case by simp
next
  case (Cons e rest)
  show ?case
  proof (cases "map_of seen (key e)")
    case None
    have "dedupInv key score (dedupLoop key score (map_set seen (key e) e) rest) ((ps @ [e]) @ rest)"
      by (rule Cons.IH [OF dedupInv_step_new [OF Cons.prems None]])
    with None show ?thesis by simp
  next
    case (Some x)
    show ?thesis
    proof (cases "score x < score e")
      case True
      have "dedupInv key score (dedupLoop key score (map_set seen (key e) e) rest) ((ps @ [e]) @ rest)"
        by (rule Cons.IH [OF dedupInv_step_replace [OF Cons.prems Some True]])
      with Some True show ?thesis by simp
    next
      case False
      have "dedupInv key score (dedupLoop key score seen rest) ((ps @ [e]) @ rest)"
        by (rule Cons.IH [OF dedupInv_step_keep [OF Cons.prems Some False]])
      with Some False show ?thesis by simp
    qed
  qed
qed

lemma dedupInv_empty: "dedupInv key score [] []"
  by (simp add: dedupInv_def)


lemma dedupLoop_keys:
  "map fst (dedupLoop key score seen rest)
     = map fst seen @ filter (\<lambda>k. k \<notin> fst ` set seen) (firstSeen (map key rest))"
proof (induction rest arbitrary: seen)
  case Nil
  then show ?case by simp
next
  case (Cons e rest)
  let ?new = "map_set seen (key e) e"
  have old: "filter (\<lambda>x. x \<noteq> key e \<and> x \<notin> fst ` set seen) ks
      = filter (\<lambda>k. k \<notin> fst ` set seen) ks" if "key e \<in> fst ` set seen" for ks
    using that by (induction ks) auto
  show ?case
  proof (cases "map_of seen (key e)")
    case None
    then have notin: "key e \<notin> fst ` set seen" by (simp add: map_of_eq_None_iff)
    have keys: "map fst ?new = map fst seen @ [key e]"
      using notin by (simp add: map_fst_map_set)
    have "fst ` set ?new = insert (key e) (fst ` set seen)"
      using arg_cong [OF keys, of set] by simp
    then have "map fst (dedupLoop key score ?new rest)
        = map fst seen @ key e #
            filter (\<lambda>k. k \<notin> fst ` set seen \<and> k \<noteq> key e) (firstSeen (map key rest))"
      unfolding Cons.IH [of ?new] keys by (simp add: conj_commute)
    with None notin show ?thesis by (simp add: conj_commute)
  next
    case (Some x)
    then have isin: "key e \<in> fst ` set seen"
      by (metis map_of_eq_None_iff option.distinct(1))
    have keys: "map fst ?new = map fst seen"
      using isin by (simp add: map_fst_map_set)
    have img: "fst ` set ?new = fst ` set seen"
      using arg_cong [OF keys, of set] by simp
    show ?thesis
      using Some isin Cons.IH [of ?new] Cons.IH [of seen]
      by (simp add: keys img old)
  qed
qed

lemma dedupLoop_first_seen:
  assumes "\<forall>(k, v) \<in> set (dedupLoop key score [] xs). key v = k"
  shows "map key (map snd (dedupLoop key score [] xs)) = firstSeen (map key xs)"
proof -
  have "map key (map snd (dedupLoop key score [] xs)) = map fst (dedupLoop key score [] xs)"
    using assms by (auto simp: map_eq_conv)
  then show ?thesis by (simp add: dedupLoop_keys)
qed

lemma dedup_order:
  "map key (map snd (dedupLoop key score [] xs)) = firstSeen (map key xs)"
proof (rule dedupLoop_first_seen)
  have "dedupInv key score (dedupLoop key score [] xs) xs"
    using dedupInv_loop [OF dedupInv_empty, of key score xs] by simp
  then show "\<forall>(k, v) \<in> set (dedupLoop key score [] xs). key v = k"
    unfolding dedupInv_def by auto
qed



section \<open>Ranking: sorted, stable, truncated\<close>

lemma array_sort_sort_key:
  "array_sort (\<lambda>a b. f b - f a) xs = sort_key (\<lambda>x. - f x) xs"
proof -
  have ins: "insertSorted (\<lambda>a b. f b - f a) x ys = insort_key (\<lambda>x. - f x) x ys" for x ys
    by (induction ys) auto
  show ?thesis
    unfolding array_sort_def sort_key_def by (induction xs) (simp_all add: ins)
qed

lemma sorted_desc_array_sort:
  "sorted_wrt (\<lambda>a b. f a \<ge> f b) (array_sort (\<lambda>a b. f b - f a) xs)"
proof -
  have "sorted (map (\<lambda>x. - f x) (sort_key (\<lambda>x. - f x) xs))" by (rule sorted_sort_key)
  then show ?thesis
    unfolding array_sort_sort_key by (simp add: sorted_wrt_map)
qed

lemma stable_array_sort:
  "filter (\<lambda>d. f d = s) (array_sort (\<lambda>a b. f b - f a) xs) = filter (\<lambda>d. f d = s) xs"
proof -
  have "filter (\<lambda>y. - f y = - s) (sort_key (\<lambda>x. - f x) xs) = filter (\<lambda>y. - f y = - s) xs"
    by (rule sort_key_stable)
  then show ?thesis unfolding array_sort_sort_key by simp
qed

lemma prefix_array_slice0: "prefix (array_slice0 xs e) xs"
  by (simp add: array_slice0_def Let_def take_is_prefix)

lemma length_array_slice0: "0 \<le> e \<Longrightarrow> int (length (array_slice0 xs e)) \<le> e"
  by (simp add: array_slice0_def Let_def)

lemma sorted_wrt_prefix: "prefix xs ys \<Longrightarrow> sorted_wrt R ys \<Longrightarrow> sorted_wrt R xs"
  by (auto simp: prefix_def sorted_wrt_append)

lemma ranked_slice:
  fixes f :: "'a \<Rightarrow> real"
  defines "r \<equiv> \<lambda>xs e. array_slice0 (array_sort (\<lambda>a b. f b - f a) xs) e"
  shows "sorted_wrt (\<lambda>a b. f a \<ge> f b) (r xs e)"
    and "prefix (filter (\<lambda>d. f d = s) (r xs e)) (filter (\<lambda>d. f d = s) xs)"
    and "0 \<le> e \<longrightarrow> int (length (r xs e)) \<le> e"
proof -
  show "sorted_wrt (\<lambda>a b. f a \<ge> f b) (r xs e)"
    unfolding r_def by (rule sorted_wrt_prefix [OF prefix_array_slice0 sorted_desc_array_sort])
  have "prefix (filter (\<lambda>d. f d = s) (r xs e))
          (filter (\<lambda>d. f d = s) (array_sort (\<lambda>a b. f b - f a) xs))"
    unfolding r_def by (rule filter_mono_prefix [OF prefix_array_slice0])
  then show "prefix (filter (\<lambda>d. f d = s) (r xs e)) (filter (\<lambda>d. f d = s) xs)"
    by (simp only: stable_array_sort)
  show "0 \<le> e \<longrightarrow> int (length (r xs e)) \<le> e"
    unfolding r_def by (simp add: length_array_slice0)
qed

text \<open>
  Claim C1, as amended. For every list of discovered listings and every limit, the list
  that discovery returns is sorted by score, highest first; listings of equal score keep
  the order they have after deduplication and filtering (the sort is stable), where a
  survivor of deduplication stands at the place at which its identifier was first seen;
  and for a limit of zero or more the result has at most \<open>limit\<close> elements. The list
  that \<open>discoverCommunityDeals\<close> and \<open>discoverProducts\<close> return is this ranking of the
  listings their sources gave, with the limit 20 when none is passed.
\<close>

theorem ranking_sorted_stable_truncated:
  "sorted_wrt (\<lambda>a b. dealScore a \<ge> dealScore b) (postProcessDeals cfg limit ds) \<and>
   prefix (filter (\<lambda>d. dealScore d = s) (postProcessDeals cfg limit ds))
          (filter (\<lambda>d. dealScore d = s) (filterQualityDeals cfg (deduplicateDeals ds))) \<and>
   (0 \<le> limit \<longrightarrow> int (length (postProcessDeals cfg limit ds)) \<le> limit) \<and>
   sorted_wrt (\<lambda>a b. p_dealScore a \<ge> p_dealScore b) (postProcessProducts pcfg limit ps) \<and>
   prefix (filter (\<lambda>d. p_dealScore d = s) (postProcessProducts pcfg limit ps))
          (filter (\<lambda>d. p_dealScore d = s) (filterQualityProducts pcfg (deduplicateProducts ps))) \<and>
   (0 \<le> limit \<longrightarrow> int (length (postProcessProducts pcfg limit ps)) \<le> limit) \<and>
   map dealKey (deduplicateDeals ds) = firstSeen (map dealKey ds) \<and>
   map p_asin (deduplicateProducts ps) = firstSeen (map p_asin ps) \<and>
   (\<exists>allDeals. fst (discoverCommunityDeals cfg env sources lim0)
      = postProcessDeals cfg (limitOrDefault lim0) allDeals) \<and>
   (\<exists>allProducts. fst (discoverProducts pcfg env psources lim0)
      = postProcessProducts pcfg (limitOrDefault lim0) allProducts) \<and>
   limitOrDefault None = 20"
proof -
  have d: "\<exists>allDeals. fst (discoverCommunityDeals cfg env sources lim0)
      = postProcessDeals cfg (limitOrDefault lim0) allDeals"
    by (auto simp: discoverCommunityDeals_def split: prod.splits)
  have p: "\<exists>allProducts. fst (discoverProducts pcfg env psources lim0)
      = postProcessProducts pcfg (limitOrDefault lim0) allProducts"
    by (auto simp: discoverProducts_def split: prod.splits)
  have l: "limitOrDefault None = 20" by (simp add: limitOrDefault_def)
  have rest: "sorted_wrt (\<lambda>a b. dealScore a \<ge> dealScore b) (postProcessDeals cfg limit ds) \<and>
   prefix (filter (\<lambda>d. dealScore d = s) (postProcessDeals cfg limit ds))
          (filter (\<lambda>d. dealScore d = s) (filterQualityDeals cfg (deduplicateDeals ds))) \<and>
   (0 \<le> limit \<longrightarrow> int (length (postProcessDeals cfg limit ds)) \<le> limit) \<and>
   sorted_wrt (\<lambda>a b. p_dealScore a \<ge> p_dealScore b) (postProcessProducts pcfg limit ps) \<and>
   prefix (filter (\<lambda>d. p_dealScore d = s) (postProcessProducts pcfg limit ps))
          (filter (\<lambda>d. p_dealScore d = s) (filterQualityProducts pcfg (deduplicateProducts ps))) \<and>
   (0 \<le> limit \<longrightarrow> int (length (postProcessProducts pcfg limit ps)) \<le> limit) \<and>
   map dealKey (deduplicateDeals ds) = firstSeen (map dealKey ds) \<and>
   map p_asin (deduplicateProducts ps) = firstSeen (map p_asin ps)"
  unfolding postProcessDeals_def postProcessProducts_def
  using dedup_order [of dealKey dealScore ds, folded deduplicateDeals_def]
    dedup_order [of p_asin p_dealScore ps, folded deduplicateProducts_def]
    ranked_slice(1) [of dealScore "filterQualityDeals cfg (deduplicateDeals ds)" limit]
    ranked_slice(2) [of dealScore s "filterQualityDeals cfg (deduplicateDeals ds)" limit]
    ranked_slice(3) [of limit dealScore "filterQualityDeals cfg (deduplicateDeals ds)"]
    ranked_slice(1) [of p_dealScore "filterQualityProducts pcfg (deduplicateProducts ps)" limit]
    ranked_slice(2) [of p_dealScore s "filterQualityProducts pcfg (deduplicateProducts ps)" limit]
    ranked_slice(3) [of limit p_dealScore "filterQualityProducts pcfg (deduplicateProducts ps)"]
  by blast
  from rest d p l show ?thesis by blast
qed

theorem ranking_sorted_stable_truncated_witness:
  "(0::int) \<le> 2 \<and>
   postProcessDeals CONFIG 2
     [sampleDeal ''a'' (Some ''B000000001'') 50, sampleDeal ''b'' (Some ''B000000002'') 70,
      sampleDeal ''c'' (Some ''B000000003'') 60]
   = [sampleDeal ''b'' (Some ''B000000002'') 70, sampleDeal ''c'' (Some ''B000000003'') 60] \<and>
   int (length (postProcessDeals CONFIG 2
     [sampleDeal ''a'' (Some ''B000000001'') 50, sampleDeal ''b'' (Some ''B000000002'') 70,
      sampleDeal ''c'' (Some ''B000000003'') 60])) \<le> 2 \<and>
   sorted_wrt (\<lambda>a b. dealScore a \<ge> dealScore b) (postProcessDeals CONFIG 2
     [sampleDeal ''a'' (Some ''B000000001'') 50, sampleDeal ''b'' (Some ''B000000002'') 70,
      sampleDeal ''c'' (Some ''B000000003'') 60]) \<and>
   int (length (postProcessProducts p_CONFIG 2
     [sampleProduct ''B000000001'' 50, sampleProduct ''B000000002'' 70,
      sampleProduct ''B000000003'' 60])) \<le> 2"
  using ranking_sorted_stable_truncated
    [of CONFIG 2 "[sampleDeal ''a'' (Some ''B000000001'') 50,
                   sampleDeal ''b'' (Some ''B000000002'') 70,
                   sampleDeal ''c'' (Some ''B000000003'') 60]" 70 p_CONFIG
        "[sampleProduct ''B000000001'' 50, sampleProduct ''B000000002'' 70,
          sampleProduct ''B000000003'' 60]"]
  by (simp add: postProcessDeals_def deduplicateDeals_def filterQualityDeals_def
      qualityDeal_def array_sort_def array_slice0_def sampleDeal_def dealKey_def CONFIG_def)

text \<open>
  The claim as stated fails in two places. With the limit \<open>-1\<close>, which the HTTP trigger
  passes on from its query string, \<open>slice(0, -1)\<close> drops the last listing only, so two
  listings give one, which is more than \<open>-1\<close>. And a listing that replaces an earlier
  one of its identifier takes over the place of that earlier one: of the discoveries
  \<open>a\<close> (score 50), \<open>b\<close> (score 70) and \<open>c\<close> (score 70, the identifier of \<open>a\<close>),
  \<open>c\<close> is returned before \<open>b\<close> although \<open>b\<close> was discovered first.
\<close>

theorem ranking_counterexample:
  "\<not> int (length (postProcessDeals CONFIG (-1)
        [sampleDeal ''a'' (Some ''B000000001'') 50,
         sampleDeal ''b'' (Some ''B000000002'') 70])) \<le> -1 \<and>
   postProcessDeals CONFIG 20
        [sampleDeal ''a'' (Some ''B000000001'') 50, sampleDeal ''b'' (Some ''B000000002'') 70,
         sampleDeal ''c'' (Some ''B000000001'') 70]
     = [sampleDeal ''c'' (Some ''B000000001'') 70, sampleDeal ''b'' (Some ''B000000002'') 70] \<and>
   \<not> tiesInDiscoveryOrder dealScore
        [sampleDeal ''a'' (Some ''B000000001'') 50, sampleDeal ''b'' (Some ''B000000002'') 70,
         sampleDeal ''c'' (Some ''B000000001'') 70]
        (postProcessDeals CONFIG 20
          [sampleDeal ''a'' (Some ''B000000001'') 50, sampleDeal ''b'' (Some ''B000000002'') 70,
           sampleDeal ''c'' (Some ''B000000001'') 70])"
proof -
  let ?a = "sampleDeal ''a'' (Some ''B000000001'') 50"
  let ?b = "sampleDeal ''b'' (Some ''B000000002'') 70"
  let ?c = "sampleDeal ''c'' (Some ''B000000001'') 70"
  have neg: "postProcessDeals CONFIG (-1) [?a, ?b] = [?b]"
    by (simp add: postProcessDeals_def deduplicateDeals_def filterQualityDeals_def
        qualityDeal_def array_sort_def array_slice0_def sampleDeal_def dealKey_def CONFIG_def)
  have res: "postProcessDeals CONFIG 20 [?a, ?b, ?c] = [?c, ?b]"
    by (simp add: postProcessDeals_def deduplicateDeals_def filterQualityDeals_def
        qualityDeal_def array_sort_def array_slice0_def sampleDeal_def dealKey_def CONFIG_def)
  have ne: "?a \<noteq> ?c" "?b \<noteq> ?c" "?a \<noteq> ?b" by (simp_all add: sampleDeal_def)
  have "\<not> subseq (filter (\<lambda>d. dealScore d = 70) [?c, ?b]) [?a, ?b, ?c]"
    using ne by (simp add: sampleDeal_def)
  then have "\<not> tiesInDiscoveryOrder dealScore [?a, ?b, ?c] [?c, ?b]"
    unfolding tiesInDiscoveryOrder_def by blast
  with neg res show ?thesis by simp
qed

section \<open>Quality filter\<close>

text \<open>
  Claim C4, as amended. \<open>filterQualityDeals\<close> keeps a deal if and only if its title has at
  least 10 characters, its price is unknown (zero or less) or within 20 to 3000, its upvotes
  reach \<open>MIN_UPVOTES\<close> and its discount reaches \<open>MIN_DISCOUNT\<close>, both bounds
  included: with a floor of 10 a deal with discount 5 is dropped, and one with discount 10
  is kept when it passes the other three tests. \<open>filterQualityProducts\<close> keeps a product
  if and only if its ASIN has 10 characters, its title at least 10, its price lies within
  \<open>MIN_PRICE\<close> to \<open>MAX_PRICE\<close>, and its rating and its review count are unknown
  (zero or less) or reach \<open>MIN_RATING\<close> and \<open>MIN_REVIEWS\<close>; it has no discount floor.
\<close>

theorem quality_filter_constraints:
  "(d \<in> set (filterQualityDeals cfg ds) \<longleftrightarrow>
      d \<in> set ds \<and> 10 \<le> length (title d) \<and>
      (price d \<le> 0 \<or> (20 \<le> price d \<and> price d \<le> 3000)) \<and>
      MIN_UPVOTES cfg \<le> upvotes d \<and> MIN_DISCOUNT cfg \<le> discount d) \<and>
   (MIN_DISCOUNT cfg = 10 \<longrightarrow>
      \<not> qualityDeal cfg (d\<lparr>discount := 5\<rparr>) \<and>
      (qualityDeal cfg (d\<lparr>discount := 10\<rparr>) \<longleftrightarrow>
         10 \<le> length (title d) \<and> (price d \<le> 0 \<or> (20 \<le> price d \<and> price d \<le> 3000)) \<and>
         MIN_UPVOTES cfg \<le> upvotes d)) \<and>
   (p \<in> set (filterQualityProducts pcfg ps) \<longleftrightarrow>
      p \<in> set ps \<and> length (p_asin p) = 10 \<and> 10 \<le> length (p_title p) \<and>
      p_MIN_PRICE pcfg \<le> p_price p \<and> p_price p \<le> p_MAX_PRICE pcfg \<and>
      (p_rating p \<le> 0 \<or> p_MIN_RATING pcfg \<le> p_rating p) \<and>
      (p_reviewCount p \<le> 0 \<or> p_MIN_REVIEWS pcfg \<le> p_reviewCount p)) \<and>
   qualityProduct pcfg (p\<lparr>p_discount := x\<rparr>) = qualityProduct pcfg p"
proof -
  have a: "qualityDeal cfg d \<longleftrightarrow>
      10 \<le> length (title d) \<and> (price d \<le> 0 \<or> (20 \<le> price d \<and> price d \<le> 3000)) \<and>
      MIN_UPVOTES cfg \<le> upvotes d \<and> MIN_DISCOUNT cfg \<le> discount d" for d
    unfolding qualityDeal_def by auto
  have b: "qualityProduct pcfg p \<longleftrightarrow>
      length (p_asin p) = 10 \<and> 10 \<le> length (p_title p) \<and>
      p_MIN_PRICE pcfg \<le> p_price p \<and> p_price p \<le> p_MAX_PRICE pcfg \<and>
      (p_rating p \<le> 0 \<or> p_MIN_RATING pcfg \<le> p_rating p) \<and>
      (p_reviewCount p \<le> 0 \<or> p_MIN_REVIEWS pcfg \<le> p_reviewCount p)" for p
    unfolding qualityProduct_def by auto
  have c: "MIN_DISCOUNT cfg = 10 \<longrightarrow>
      \<not> qualityDeal cfg (d\<lparr>discount := 5\<rparr>) \<and>
      (qualityDeal cfg (d\<lparr>discount := 10\<rparr>) \<longleftrightarrow>
         10 \<le> length (title d) \<and> (price d \<le> 0 \<or> (20 \<le> price d \<and> price d \<le> 3000)) \<and>
         MIN_UPVOTES cfg \<le> upvotes d)"
    by (simp add: a)
  have e: "qualityProduct pcfg (p\<lparr>p_discount := x\<rparr>) = qualityProduct pcfg p"
    by (simp add: b)
  show ?thesis
    unfolding filterQualityDeals_def filterQualityProducts_def
    using c e by (simp add: a b)
qed

theorem quality_filter_constraints_witness:
  "MIN_DISCOUNT CONFIG = 10 \<and>
   (sampleDeal ''a'' None 70)\<lparr>discount := 10\<rparr>
     \<in> set (filterQualityDeals CONFIG [(sampleDeal ''a'' None 70)\<lparr>discount := 10\<rparr>]) \<and>
   \<not> qualityDeal CONFIG ((sampleDeal ''a'' None 70)\<lparr>discount := 5\<rparr>) \<and>
   qualityDeal CONFIG ((sampleDeal ''a'' None 70)\<lparr>discount := 10\<rparr>) \<and>
   sampleProduct ''B000000001'' 70
     \<in> set (filterQualityProducts p_CONFIG [sampleProduct ''B000000001'' 70])"
  using quality_filter_constraints
    [of "(sampleDeal ''a'' None 70)\<lparr>discount := 10\<rparr>" CONFIG
        "[(sampleDeal ''a'' None 70)\<lparr>discount := 10\<rparr>]"
        "sampleProduct ''B000000001'' 70" p_CONFIG "[sampleProduct ''B000000001'' 70]"]
  by (simp add: sampleDeal_def sampleProduct_def CONFIG_def p_CONFIG_def)

text \<open>
  The claim as stated fails on both filters. A deal whose price could not be read has the
  price 0, outside the band of 20 to 3000, and is kept. A product with a discount of 5 is
  kept by \<open>filterQualityProducts\<close>, which never looks at the discount.
\<close>

theorem quality_filter_counterexample:
  "filterQualityDeals CONFIG [(sampleDeal ''a'' None 70)\<lparr>price := 0\<rparr>]
     = [(sampleDeal ''a'' None 70)\<lparr>price := 0\<rparr>] \<and>
   \<not> (20 \<le> price ((sampleDeal ''a'' None 70)\<lparr>price := 0\<rparr>) \<and>
      price ((sampleDeal ''a'' None 70)\<lparr>price := 0\<rparr>) \<le> 3000) \<and>
   filterQualityProducts p_CONFIG [(sampleProduct ''B000000001'' 70)\<lparr>p_discount := 5\<rparr>]
     = [(sampleProduct ''B000000001'' 70)\<lparr>p_discount := 5\<rparr>] \<and>
   p_discount ((sampleProduct ''B000000001'' 70)\<lparr>p_discount := 5\<rparr>) < 10"
  by (simp add: filterQualityDeals_def qualityDeal_def filterQualityProducts_def
      qualityProduct_def sampleDeal_def sampleProduct_def CONFIG_def p_CONFIG_def)

section \<open>The deal score lies between 0 and 100\<close>










section \<open>What the deal score depends on\<close>

lemma weightOf_electronics: "weightOf CATEGORY_WEIGHTS ''electronics'' = 100"
  by (simp add: weightOf_def CATEGORY_WEIGHTS_def)

lemma calculateDealScore_sample:
  "calculateDealScore (sampleDeal i None s) = 70"
  "calculateDealScore (sampleDeal i (Some ''B000000001'') s) = 85"
proof -
  have a: "calculateDealScore (sampleDeal i None s)
      = Math_round (min (35 + 15 + weightOf CATEGORY_WEIGHTS ''electronics'' * (20 / 100) + 0) 100)"
    by (simp add: calculateDealScore_def sampleDeal_def)
  have b: "calculateDealScore (sampleDeal i (Some ''B000000001'') s)
      = Math_round (min (35 + 15 + weightOf CATEGORY_WEIGHTS ''electronics'' * (20 / 100) + 15) 100)"
    by (simp add: calculateDealScore_def sampleDeal_def)
  show "calculateDealScore (sampleDeal i None s) = 70"
    unfolding a weightOf_electronics by (simp add: Math_round_def)
  show "calculateDealScore (sampleDeal i (Some ''B000000001'') s) = 85"
    unfolding b weightOf_electronics by (simp add: Math_round_def)
qed

text \<open>
  Claim C9, as amended. The community score is a function of the discount, the upvotes,
  the canonical category and whether the deal has an ASIN; the source does not enter it.
  The Amazon score is a function of the discount, the rating, the review count, the
  canonical category and the source. No other field changes either score.
\<close>

theorem deal_score_depends_only_on:
  "(discount a = discount b \<and> upvotes a = upvotes b \<and>
    normalizedCategory a = normalizedCategory b \<and>
    ((asin a = None \<or> asin a = Some []) \<longleftrightarrow> (asin b = None \<or> asin b = Some []))
      \<longrightarrow> calculateDealScore a = calculateDealScore b) \<and>
   (p_discount p = p_discount q \<and> p_rating p = p_rating q \<and>
    p_reviewCount p = p_reviewCount q \<and>
    p_normalizedCategory p = p_normalizedCategory q \<and> p_source p = p_source q
      \<longrightarrow> p_calculateDealScore p = p_calculateDealScore q)"
proof (intro conjI impI)
  assume h: "discount a = discount b \<and> upvotes a = upvotes b \<and>
    normalizedCategory a = normalizedCategory b \<and>
    ((asin a = None \<or> asin a = Some []) \<longleftrightarrow> (asin b = None \<or> asin b = Some []))"
  then have "(case asin a of None \<Rightarrow> 0 | Some x \<Rightarrow> if x = [] then 0 else 15)
      = (case asin b of None \<Rightarrow> (0::real) | Some x \<Rightarrow> if x = [] then 0 else 15)"
    by (auto split: option.splits)
  with h show "calculateDealScore a = calculateDealScore b"
    unfolding calculateDealScore_def by simp
next
  assume "p_discount p = p_discount q \<and> p_rating p = p_rating q \<and>
    p_reviewCount p = p_reviewCount q \<and>
    p_normalizedCategory p = p_normalizedCategory q \<and> p_source p = p_source q"
  then show "p_calculateDealScore p = p_calculateDealScore q"
    unfolding p_calculateDealScore_def by simp
qed

theorem deal_score_depends_only_on_witness:
  "calculateDealScore (sampleDeal ''pelando-fone-100'' (Some ''B000000001'') 0)
     = calculateDealScore
         ((sampleDeal ''promobit-fone-90'' (Some ''B000000002'') 0)
            \<lparr>title := ''Outro fone de ouvido'', price := 90, source := ''Promobit''\<rparr>) \<and>
   p_calculateDealScore (sampleProduct ''B000000001'' 0)
     = p_calculateDealScore ((sampleProduct ''B000000002'' 0)\<lparr>p_price := 90\<rparr>)"
  using deal_score_depends_only_on
    [of "sampleDeal ''pelando-fone-100'' (Some ''B000000001'') 0"
        "(sampleDeal ''promobit-fone-90'' (Some ''B000000002'') 0)
            \<lparr>title := ''Outro fone de ouvido'', price := 90, source := ''Promobit''\<rparr>"
        "sampleProduct ''B000000001'' 0" "(sampleProduct ''B000000002'' 0)\<lparr>p_price := 90\<rparr>"]
  by (simp add: sampleDeal_def sampleProduct_def)

text \<open>
  The claim as stated fails for the community score: two deals with the same discount,
  upvotes, canonical category and source, of which only one has an ASIN, score 85 and 70.
\<close>

theorem deal_score_counterexample:
  "discount (sampleDeal ''a'' (Some ''B000000001'') 0) = discount (sampleDeal ''a'' None 0) \<and>
   upvotes (sampleDeal ''a'' (Some ''B000000001'') 0) = upvotes (sampleDeal ''a'' None 0) \<and>
   normalizedCategory (sampleDeal ''a'' (Some ''B000000001'') 0)
     = normalizedCategory (sampleDeal ''a'' None 0) \<and>
   source (sampleDeal ''a'' (Some ''B000000001'') 0) = source (sampleDeal ''a'' None 0) \<and>
   calculateDealScore (sampleDeal ''a'' (Some ''B000000001'') 0) = 85 \<and>
   calculateDealScore (sampleDeal ''a'' None 0) = 70"
  by (simp add: calculateDealScore_sample) (simp add: sampleDeal_def)

section \<open>Price parsing\<close>





section \<open>The request count of a session\<close>

lemma scrapedSources_append:
  "scrapedSources (xs @ ys) = scrapedSources xs @ scrapedSources ys"
  by (simp add: scrapedSources_def)

lemma scrapedSources_Cons:
  "scrapedSources (e # es) = (case e of Scraping n \<Rightarrow> [n] | _ \<Rightarrow> []) @ scrapedSources es"
  "scrapedSources [] = []"
  by (simp_all add: scrapedSources_def)

lemma fetchAttempts_done:
  "\<not> attempt \<le> MAX_RETRIES cfg \<Longrightarrow> fetchAttempts cfg net url attempt (stats, evs) = (None, stats, evs)"
  by (subst fetchAttempts.simps) simp

lemma fetchAttempts_ok:
  "attempt \<le> MAX_RETRIES cfg \<Longrightarrow> net url (requestCount stats + 1) = Ok html \<Longrightarrow>
   fetchAttempts cfg net url attempt (stats, evs) = (Some html, stats\<lparr>requestCount := requestCount stats + 1\<rparr>, evs @ [Fetching url])"
  by (subst fetchAttempts.simps) (simp add: Let_def)

lemma fetchAttempts_retry:
  "attempt < MAX_RETRIES cfg \<Longrightarrow> net url (requestCount stats + 1) = Failed msg \<Longrightarrow>
   fetchAttempts cfg net url attempt (stats, evs)
     = fetchAttempts cfg net url (attempt + 1)
         (stats\<lparr>requestCount := requestCount stats + 1\<rparr>,
          evs @ [Fetching url, Sleep (RETRY_DELAY_MS cfg * attempt)])"
  by (subst fetchAttempts.simps) (simp add: Let_def)

lemma fetchAttempts_last:
  "attempt = MAX_RETRIES cfg \<Longrightarrow> net url (requestCount stats + 1) = Failed msg \<Longrightarrow>
   fetchAttempts cfg net url attempt (stats, evs)
     = fetchAttempts cfg net url (attempt + 1)
         (stats\<lparr>requestCount := requestCount stats + 1,
                errors := errors stats @ [''Failed to fetch '' @ url @ '': '' @ msg]\<rparr>,
          evs @ [Fetching url])"
  by (subst fetchAttempts.simps) (simp add: Let_def)

text \<open>
  Induction over the attempts that are left: a property of the state before the loop and
  the result holds if it holds when the loop is over or answered, and passes from the next
  attempt to this one.
\<close>

lemma fetchAttempts_cases:
  assumes fin: "\<And>attempt stats evs. \<not> attempt \<le> MAX_RETRIES cfg \<Longrightarrow> Q attempt (stats, evs) (None, stats, evs)"
    and ok: "\<And>attempt stats evs html. attempt \<le> MAX_RETRIES cfg \<Longrightarrow>
               net url (requestCount stats + 1) = Ok html \<Longrightarrow>
               Q attempt (stats, evs) (Some html, stats\<lparr>requestCount := requestCount stats + 1\<rparr>, evs @ [Fetching url])"
    and retry: "\<And>attempt stats evs msg res. attempt < MAX_RETRIES cfg \<Longrightarrow>
               net url (requestCount stats + 1) = Failed msg \<Longrightarrow>
               Q (attempt + 1) (stats\<lparr>requestCount := requestCount stats + 1\<rparr>,
                                evs @ [Fetching url, Sleep (RETRY_DELAY_MS cfg * attempt)]) res \<Longrightarrow>
               Q attempt (stats, evs) res"
    and last: "\<And>attempt stats evs msg res. attempt = MAX_RETRIES cfg \<Longrightarrow>
               net url (requestCount stats + 1) = Failed msg \<Longrightarrow>
               Q (attempt + 1)
                 (stats\<lparr>requestCount := requestCount stats + 1,
                        errors := errors stats @ [''Failed to fetch '' @ url @ '': '' @ msg]\<rparr>,
                  evs @ [Fetching url]) res \<Longrightarrow>
               Q attempt (stats, evs) res"
  shows "Q attempt st (fetchAttempts cfg net url attempt st)"
proof (induction "MAX_RETRIES cfg + 1 - attempt" arbitrary: attempt st)
  case 0
  obtain stats evs where st: "st = (stats, evs)" by (cases st)
  from 0 have "\<not> attempt \<le> MAX_RETRIES cfg" by simp
  with fin [of attempt stats evs] show ?case
    by (simp add: st fetchAttempts_done)
next
  case (Suc k)
  obtain stats evs where st: "st = (stats, evs)" by (cases st)
  from Suc.hyps(2) have le: "attempt \<le> MAX_RETRIES cfg" by simp
  show ?case
  proof (cases "net url (requestCount stats + 1)")
    case (Ok html)
    with ok [OF le, of stats html evs] le show ?thesis
      by (simp add: st fetchAttempts_ok)
  next
    case (Failed msg)
    from Suc.hyps(2) have k: "k = MAX_RETRIES cfg + 1 - (attempt + 1)" by simp
    show ?thesis
    proof (cases "attempt < MAX_RETRIES cfg")
      case True
      from retry [OF True Failed Suc.hyps(1) [OF k]] show ?thesis
        by (simp add: st fetchAttempts_retry [where net = net and url = url, OF True Failed])
    next
      case False
      with le have eq: "attempt = MAX_RETRIES cfg" by simp
      from last [OF eq Failed Suc.hyps(1) [OF k]] show ?thesis
        by (simp add: st fetchAttempts_last [where net = net and url = url, OF eq Failed])
    qed
  qed
qed

lemma fetchAttempts_count:
  "requestCount (fst st) \<le> requestCount (fst (snd (fetchAttempts cfg net url attempt st))) \<and>
   requestCount (fst (snd (fetchAttempts cfg net url attempt st)))
     \<le> requestCount (fst st) + (MAX_RETRIES cfg + 1 - attempt)"
  by (rule fetchAttempts_cases
      [where Q = "\<lambda>a st res. requestCount (fst st) \<le> requestCount (fst (snd res)) \<and>
                    requestCount (fst (snd res)) \<le> requestCount (fst st) + (MAX_RETRIES cfg + 1 - a)"])
    (auto split: if_splits)

lemma fetchAttempts_progress:
  assumes "attempt \<le> MAX_RETRIES cfg"
  shows "requestCount (fst st) < requestCount (fst (snd (fetchAttempts cfg net url attempt st)))"
proof -
  have "(attempt \<le> MAX_RETRIES cfg \<longrightarrow>
           requestCount (fst st) < requestCount (fst (snd (fetchAttempts cfg net url attempt st)))) \<and>
        requestCount (fst st) \<le> requestCount (fst (snd (fetchAttempts cfg net url attempt st)))"
    by (rule fetchAttempts_cases
        [where Q = "\<lambda>a st res. (a \<le> MAX_RETRIES cfg \<longrightarrow> requestCount (fst st) < requestCount (fst (snd res))) \<and>
                      requestCount (fst st) \<le> requestCount (fst (snd res))"])
      (auto split: if_splits)
  with assms show ?thesis by blast
qed

lemma fetchAttempts_all_fail:
  "\<forall>n. net url n = Failed msg \<Longrightarrow>
   requestCount (fst (snd (fetchAttempts cfg net url attempt st)))
     = requestCount (fst st) + (MAX_RETRIES cfg + 1 - attempt)"
  by (rule fetchAttempts_cases
      [where Q = "\<lambda>a st res. requestCount (fst (snd res)) = requestCount (fst st) + (MAX_RETRIES cfg + 1 - a)"])
    auto

lemma fetchAttempts_scraped:
  "scrapedSources (snd (snd (fetchAttempts cfg net url attempt st))) = scrapedSources (snd st)"
  by (rule fetchAttempts_cases
      [where Q = "\<lambda>a st res. scrapedSources (snd (snd res)) = scrapedSources (snd st)"])
    (auto simp: scrapedSources_append scrapedSources_Cons split: if_splits)

lemma p_fetchAttempts_done:
  "\<not> attempt \<le> p_MAX_RETRIES cfg \<Longrightarrow> p_fetchAttempts cfg net url attempt (stats, evs) = (None, stats, evs)"
  by (subst p_fetchAttempts.simps) simp

lemma p_fetchAttempts_ok:
  "attempt \<le> p_MAX_RETRIES cfg \<Longrightarrow> net url (p_requestCount stats + 1) = Ok html \<Longrightarrow>
   p_fetchAttempts cfg net url attempt (stats, evs) = (if str_includes html ''captcha'' \<or> str_includes html ''robot''
           \<or> str_includes html ''automated''
        then (None,
              stats\<lparr>p_requestCount := p_requestCount stats + 1,
                     p_errors := p_errors stats @ [''Bot detection on '' @ url]\<rparr>,
              evs @ [Fetching url, Sleep (p_RETRY_DELAY_MS cfg * 2)])
        else (Some html, stats\<lparr>p_requestCount := p_requestCount stats + 1\<rparr>,
              evs @ [Fetching url]))"
  by (subst p_fetchAttempts.simps) (simp add: Let_def)

lemma p_fetchAttempts_retry:
  "attempt < p_MAX_RETRIES cfg \<Longrightarrow> net url (p_requestCount stats + 1) = Failed msg \<Longrightarrow>
   p_fetchAttempts cfg net url attempt (stats, evs)
     = p_fetchAttempts cfg net url (attempt + 1)
         (stats\<lparr>p_requestCount := p_requestCount stats + 1\<rparr>,
          evs @ [Fetching url, Sleep (p_RETRY_DELAY_MS cfg * attempt)])"
  by (subst p_fetchAttempts.simps) (simp add: Let_def)

lemma p_fetchAttempts_last:
  "attempt = p_MAX_RETRIES cfg \<Longrightarrow> net url (p_requestCount stats + 1) = Failed msg \<Longrightarrow>
   p_fetchAttempts cfg net url attempt (stats, evs)
     = p_fetchAttempts cfg net url (attempt + 1)
         (stats\<lparr>p_requestCount := p_requestCount stats + 1,
                p_errors := p_errors stats @ [''Failed to fetch '' @ url @ '': '' @ msg]\<rparr>,
          evs @ [Fetching url])"
  by (subst p_fetchAttempts.simps) (simp add: Let_def)

text \<open>
  Induction over the attempts that are left: a property of the state before the loop and
  the result holds if it holds when the loop is over or answered, and passes from the next
  attempt to this one.
\<close>

lemma p_fetchAttempts_cases:
  assumes fin: "\<And>attempt stats evs. \<not> attempt \<le> p_MAX_RETRIES cfg \<Longrightarrow> Q attempt (stats, evs) (None, stats, evs)"
    and ok: "\<And>attempt stats evs html. attempt \<le> p_MAX_RETRIES cfg \<Longrightarrow>
               net url (p_requestCount stats + 1) = Ok html \<Longrightarrow>
               Q attempt (stats, evs) (if str_includes html ''captcha'' \<or> str_includes html ''robot''
           \<or> str_includes html ''automated''
        then (None,
              stats\<lparr>p_requestCount := p_requestCount stats + 1,
                     p_errors := p_errors stats @ [''Bot detection on '' @ url]\<rparr>,
              evs @ [Fetching url, Sleep (p_RETRY_DELAY_MS cfg * 2)])
        else (Some html, stats\<lparr>p_requestCount := p_requestCount stats + 1\<rparr>,
              evs @ [Fetching url]))"
    and retry: "\<And>attempt stats evs msg res. attempt < p_MAX_RETRIES cfg \<Longrightarrow>
               net url (p_requestCount stats + 1) = Failed msg \<Longrightarrow>
               Q (attempt + 1) (stats\<lparr>p_requestCount := p_requestCount stats + 1\<rparr>,
                                evs @ [Fetching url, Sleep (p_RETRY_DELAY_MS cfg * attempt)]) res \<Longrightarrow>
               Q attempt (stats, evs) res"
    and last: "\<And>attempt stats evs msg res. attempt = p_MAX_RETRIES cfg \<Longrightarrow>
               net url (p_requestCount stats + 1) = Failed msg \<Longrightarrow>
               Q (attempt + 1)
                 (stats\<lparr>p_requestCount := p_requestCount stats + 1,
                        p_errors := p_errors stats @ [''Failed to fetch '' @ url @ '': '' @ msg]\<rparr>,
                  evs @ [Fetching url]) res \<Longrightarrow>
               Q attempt (stats, evs) res"
  shows "Q attempt st (p_fetchAttempts cfg net url attempt st)"
proof (induction "p_MAX_RETRIES cfg + 1 - attempt" arbitrary: attempt st)
  case 0
  obtain stats evs where st: "st = (stats, evs)" by (cases st)
  from 0 have "\<not> attempt \<le> p_MAX_RETRIES cfg" by simp
  with fin [of attempt stats evs] show ?case
    by (simp add: st p_fetchAttempts_done)
next
  case (Suc k)
  obtain stats evs where st: "st = (stats, evs)" by (cases st)
  from Suc.hyps(2) have le: "attempt \<le> p_MAX_RETRIES cfg" by simp
  show ?case
  proof (cases "net url (p_requestCount stats + 1)")
    case (Ok html)
    with ok [OF le, of stats html evs] le show ?thesis
      by (simp add: st p_fetchAttempts_ok)
  next
    case (Failed msg)
    from Suc.hyps(2) have k: "k = p_MAX_RETRIES cfg + 1 - (attempt + 1)" by simp
    show ?thesis
    proof (cases "attempt < p_MAX_RETRIES cfg")
      case True
      from retry [OF True Failed Suc.hyps(1) [OF k]] show ?thesis
        by (simp add: st p_fetchAttempts_retry [where net = net and url = url, OF True Failed])
    next
      case False
      with le have eq: "attempt = p_MAX_RETRIES cfg" by simp
      from last [OF eq Failed Suc.hyps(1) [OF k]] show ?thesis
        by (simp add: st p_fetchAttempts_last [where net = net and url = url, OF eq Failed])
    qed
  qed
qed

lemma p_fetchAttempts_count:
  "p_requestCount (fst st) \<le> p_requestCount (fst (snd (p_fetchAttempts cfg net url attempt st))) \<and>
   p_requestCount (fst (snd (p_fetchAttempts cfg net url attempt st)))
     \<le> p_requestCount (fst st) + (p_MAX_RETRIES cfg + 1 - attempt)"
  by (rule p_fetchAttempts_cases
      [where Q = "\<lambda>a st res. p_requestCount (fst st) \<le> p_requestCount (fst (snd res)) \<and>
                    p_requestCount (fst (snd res)) \<le> p_requestCount (fst st) + (p_MAX_RETRIES cfg + 1 - a)"])
    (auto split: if_splits)

lemma p_fetchAttempts_progress:
  assumes "attempt \<le> p_MAX_RETRIES cfg"
  shows "p_requestCount (fst st) < p_requestCount (fst (snd (p_fetchAttempts cfg net url attempt st)))"
proof -
  have "(attempt \<le> p_MAX_RETRIES cfg \<longrightarrow>
           p_requestCount (fst st) < p_requestCount (fst (snd (p_fetchAttempts cfg net url attempt st)))) \<and>
        p_requestCount (fst st) \<le> p_requestCount (fst (snd (p_fetchAttempts cfg net url attempt st)))"
    by (rule p_fetchAttempts_cases
        [where Q = "\<lambda>a st res. (a \<le> p_MAX_RETRIES cfg \<longrightarrow> p_requestCount (fst st) < p_requestCount (fst (snd res))) \<and>
                      p_requestCount (fst st) \<le> p_requestCount (fst (snd res))"])
      (auto split: if_splits)
  with assms show ?thesis by blast
qed

lemma p_fetchAttempts_all_fail:
  "\<forall>n. net url n = Failed msg \<Longrightarrow>
   p_requestCount (fst (snd (p_fetchAttempts cfg net url attempt st)))
     = p_requestCount (fst st) + (p_MAX_RETRIES cfg + 1 - attempt)"
  by (rule p_fetchAttempts_cases
      [where Q = "\<lambda>a st res. p_requestCount (fst (snd res)) = p_requestCount (fst st) + (p_MAX_RETRIES cfg + 1 - a)"])
    auto

lemma p_fetchAttempts_scraped:
  "scrapedSources (snd (snd (p_fetchAttempts cfg net url attempt st))) = scrapedSources (snd st)"
  by (rule p_fetchAttempts_cases
      [where Q = "\<lambda>a st res. scrapedSources (snd (snd res)) = scrapedSources (snd st)"])
    (auto simp: scrapedSources_append scrapedSources_Cons split: if_splits)

lemma fetchWithRetry_count:
  assumes "requestCount (fst st) < MAX_REQUESTS cfg"
  shows "requestCount (fst (snd (fetchWithRetry cfg net url st)))
           \<le> requestCount (fst st) + MAX_RETRIES cfg"
  using assms fetchAttempts_count [of st cfg net url 1] by (simp add: fetchWithRetry_def)

lemma scrapeCommunitySource_count:
  assumes "requestCount (fst (snd st)) < MAX_REQUESTS cfg"
  shows "requestCount (fst (snd (scrapeCommunitySource cfg env src st)))
           \<le> requestCount (fst (snd st)) + MAX_RETRIES cfg"
proof -
  obtain ds stats evs where st: "st = (ds, stats, evs)" by (metis prod_cases3)
  obtain html stats1 evs1 where
    f: "fetchWithRetry cfg (env_net env) (src_url src) (stats, evs @ [Scraping (src_name src)])
          = (html, stats1, evs1)"
    by (metis prod_cases3)
  from assms st
    fetchWithRetry_count [of "(stats, evs @ [Scraping (src_name src)])" cfg "env_net env" "src_url src"]
  have "requestCount stats1 \<le> requestCount stats + MAX_RETRIES cfg" by (simp add: f)
  then show ?thesis
    by (simp add: scrapeCommunitySource_def st f Let_def)
qed

lemma scrapeCommunitySources_count:
  assumes "requestCount (fst (snd st)) < MAX_REQUESTS cfg + MAX_RETRIES cfg"
  shows "requestCount (fst (snd (scrapeCommunitySources cfg env sources st)))
           < MAX_REQUESTS cfg + MAX_RETRIES cfg"
  using assms
proof (induction sources arbitrary: st)
  case Nil
  then show ?case by simp
next
  case (Cons src rest)
  show ?case
  proof (cases "MAX_REQUESTS cfg \<le> requestCount (fst (snd st))")
    case True
    with Cons.prems show ?thesis by simp
  next
    case False
    then have "requestCount (fst (snd (scrapeCommunitySource cfg env src st)))
        < MAX_REQUESTS cfg + MAX_RETRIES cfg"
      using scrapeCommunitySource_count [of st cfg env src] by simp
    from Cons.IH [OF this] False show ?thesis by simp
  qed
qed

lemma p_fetchWithRetry_count:
  assumes "p_requestCount (fst st) < p_MAX_REQUESTS_PER_SESSION cfg"
  shows "p_requestCount (fst (snd (p_fetchWithRetry cfg net url st)))
           \<le> p_requestCount (fst st) + p_MAX_RETRIES cfg"
  using assms p_fetchAttempts_count [of st cfg net url 1] by (simp add: p_fetchWithRetry_def)

lemma scrapeAmazonSource_count:
  assumes "p_requestCount (fst (snd st)) < p_MAX_REQUESTS_PER_SESSION cfg"
  shows "p_requestCount (fst (snd (scrapeAmazonSource cfg env src isLast st)))
           \<le> p_requestCount (fst (snd st)) + p_MAX_RETRIES cfg"
proof -
  obtain ps stats evs where st: "st = (ps, stats, evs)" by (metis prod_cases3)
  obtain html stats1 evs1 where
    f: "p_fetchWithRetry cfg (env_net env) (as_url src) (stats, evs @ [Scraping (as_url src)])
          = (html, stats1, evs1)"
    by (metis prod_cases3)
  from assms st
    p_fetchWithRetry_count [of "(stats, evs @ [Scraping (as_url src)])" cfg "env_net env" "as_url src"]
  have "p_requestCount stats1 \<le> p_requestCount stats + p_MAX_RETRIES cfg" by (simp add: f)
  then show ?thesis
    by (simp add: scrapeAmazonSource_def st f Let_def)
qed

lemma scrapeAmazonSources_count:
  assumes "p_requestCount (fst (snd st)) < p_MAX_REQUESTS_PER_SESSION cfg + p_MAX_RETRIES cfg"
  shows "p_requestCount (fst (snd (scrapeAmazonSources cfg env sources st)))
           < p_MAX_REQUESTS_PER_SESSION cfg + p_MAX_RETRIES cfg"
  using assms
proof (induction sources arbitrary: st)
  case Nil
  then show ?case by simp
next
  case (Cons src rest)
  show ?case
  proof (cases "p_MAX_REQUESTS_PER_SESSION cfg \<le> p_requestCount (fst (snd st))")
    case True
    with Cons.prems show ?thesis by simp
  next
    case False
    then have "p_requestCount (fst (snd (scrapeAmazonSource cfg env src (rest = []) st)))
        < p_MAX_REQUESTS_PER_SESSION cfg + p_MAX_RETRIES cfg"
      using scrapeAmazonSource_count [of st cfg env src "rest = []"] by simp
    from Cons.IH [OF this] False show ?thesis by simp
  qed
qed

lemma scrapeDealSelectors_empty_doc:
  "scrapeDealSelectors cfg src now [] sels ([], pt) = ([], pt)"
  by (induction sels) (simp_all add: select_def)

lemma scrapeDealsFromHTML_empty_doc: "scrapeDealsFromHTML cfg now [] src = []"
  by (simp add: scrapeDealsFromHTML_def scrapeDealSelectors_empty_doc)

lemma scrapeProductSelectors_empty_doc:
  "0 < p_MAX_PRODUCTS_PER_SOURCE cfg \<Longrightarrow>
   scrapeProductSelectors cfg jk c s now [] sels ([], pt) = ([], pt)"
  by (induction sels) (simp_all add: select_def)

lemma scrapeProductsFromHTML_empty_doc:
  "0 < p_MAX_PRODUCTS_PER_SOURCE cfg \<Longrightarrow> scrapeProductsFromHTML cfg jk now [] c s = []"
  by (simp add: scrapeProductsFromHTML_def scrapeProductSelectors_empty_doc)

section \<open>Sources scraped under the budget\<close>

lemma scrapeCommunitySource_scraped:
  assumes "requestCount (fst (snd st)) < MAX_REQUESTS cfg" and "0 < MAX_RETRIES cfg"
  shows "scrapedSources (snd (snd (scrapeCommunitySource cfg env src st)))
           = scrapedSources (snd (snd st)) @ [src_name src]"
    and "requestCount (fst (snd st)) < requestCount (fst (snd (scrapeCommunitySource cfg env src st)))"
proof -
  obtain ds stats evs where st: "st = (ds, stats, evs)" by (metis prod_cases3)
  let ?st1 = "(stats, evs @ [Scraping (src_name src)])"
  let ?r = "fetchAttempts cfg (env_net env) (src_url src) 1 ?st1"
  obtain html stats1 evs1 where r: "?r = (html, stats1, evs1)" by (metis prod_cases3)
  have f: "fetchWithRetry cfg (env_net env) (src_url src) ?st1 = (html, stats1, evs1)"
    using assms(1) st r by (simp add: fetchWithRetry_def)
  have "scrapedSources evs1 = scrapedSources (evs @ [Scraping (src_name src)])"
    using fetchAttempts_scraped [of cfg "env_net env" "src_url src" 1 ?st1] r
    by (simp)
  then show "scrapedSources (snd (snd (scrapeCommunitySource cfg env src st)))
           = scrapedSources (snd (snd st)) @ [src_name src]"
    by (simp add: scrapeCommunitySource_def st f Let_def scrapedSources_append
        scrapedSources_Cons)
  have "requestCount stats < requestCount stats1"
    using fetchAttempts_progress [of 1 cfg ?st1 "env_net env" "src_url src"] r assms(2)
    by (simp)
  then show "requestCount (fst (snd st)) < requestCount (fst (snd (scrapeCommunitySource cfg env src st)))"
    by (simp add: scrapeCommunitySource_def st f Let_def)
qed

lemma scrapeCommunitySources_scraped:
  assumes "0 < MAX_RETRIES cfg"
  shows "\<exists>j. scrapedSources (snd (snd (scrapeCommunitySources cfg env sources st)))
              = scrapedSources (snd (snd st)) @ map src_name (take j sources) \<and>
            j + requestCount (fst (snd st)) \<le> max (MAX_REQUESTS cfg) (requestCount (fst (snd st)))"
proof (induction sources arbitrary: st)
  case Nil
  show ?case by (intro exI [of _ 0]) simp
next
  case (Cons src rest)
  show ?case
  proof (cases "MAX_REQUESTS cfg \<le> requestCount (fst (snd st))")
    case True
    then have "scrapedSources (snd (snd (scrapeCommunitySources cfg env (src # rest) st)))
        = scrapedSources (snd (snd st)) @ map src_name (take 0 (src # rest))"
      by (simp add: scrapedSources_append scrapedSources_Cons)
    then show ?thesis by (intro exI [of _ 0]) simp
  next
    case False
    let ?st1 = "scrapeCommunitySource cfg env src st"
    from False have lt: "requestCount (fst (snd st)) < MAX_REQUESTS cfg" by simp
    note step = scrapeCommunitySource_scraped [OF lt assms, of env src]
    from Cons.IH [of ?st1] obtain j where
      j: "scrapedSources (snd (snd (scrapeCommunitySources cfg env rest ?st1)))
            = scrapedSources (snd (snd ?st1)) @ map src_name (take j rest)"
      and b: "j + requestCount (fst (snd ?st1)) \<le> max (MAX_REQUESTS cfg) (requestCount (fst (snd ?st1)))"
      by blast
    have "scrapedSources (snd (snd (scrapeCommunitySources cfg env (src # rest) st)))
        = scrapedSources (snd (snd st)) @ map src_name (take (Suc j) (src # rest))"
      using False j step(1) by simp
    moreover have "Suc j + requestCount (fst (snd st))
        \<le> max (MAX_REQUESTS cfg) (requestCount (fst (snd st)))"
      using b step(2) lt by arith
    ultimately show ?thesis by blast
  qed
qed

lemma discoverCommunityDeals_scraped:
  assumes "0 < MAX_RETRIES cfg"
  shows "\<exists>j \<le> MAX_REQUESTS cfg.
           scrapedSources (snd (snd (discoverCommunityDeals cfg env sources limit)))
             = map src_name (take j sources)"
proof -
  let ?st0 = "([], \<lparr>requestCount = 0, dealsFound = 0, errors = [], startTime = date_now env\<rparr>, [])"
  from scrapeCommunitySources_scraped [OF assms, of env sources ?st0] obtain j where
    j: "scrapedSources (snd (snd (scrapeCommunitySources cfg env sources ?st0)))
          = map src_name (take j sources)" and b: "j \<le> MAX_REQUESTS cfg"
    by (auto simp: scrapedSources_Cons)
  obtain ds stats' evs' where
    r: "scrapeCommunitySources cfg env sources ?st0 = (ds, stats', evs')" by (metis prod_cases3)
  from j r have "scrapedSources (snd (snd (discoverCommunityDeals cfg env sources limit)))
      = map src_name (take j sources)"
    by (simp add: discoverCommunityDeals_def)
  with b show ?thesis by blast
qed

lemma scrapeAmazonSource_scraped:
  assumes "p_requestCount (fst (snd st)) < p_MAX_REQUESTS_PER_SESSION cfg" and "0 < p_MAX_RETRIES cfg"
  shows "scrapedSources (snd (snd (scrapeAmazonSource cfg env src isLast st)))
           = scrapedSources (snd (snd st)) @ [as_url src]"
    and "p_requestCount (fst (snd st)) < p_requestCount (fst (snd (scrapeAmazonSource cfg env src isLast st)))"
proof -
  obtain ps stats evs where st: "st = (ps, stats, evs)" by (metis prod_cases3)
  let ?st1 = "(stats, evs @ [Scraping (as_url src)])"
  let ?r = "p_fetchAttempts cfg (env_net env) (as_url src) 1 ?st1"
  obtain html stats1 evs1 where r: "?r = (html, stats1, evs1)" by (metis prod_cases3)
  have f: "p_fetchWithRetry cfg (env_net env) (as_url src) ?st1 = (html, stats1, evs1)"
    using assms(1) st r by (simp add: p_fetchWithRetry_def)
  have "scrapedSources evs1 = scrapedSources (evs @ [Scraping (as_url src)])"
    using p_fetchAttempts_scraped [of cfg "env_net env" "as_url src" 1 ?st1] r
    by (simp)
  then show "scrapedSources (snd (snd (scrapeAmazonSource cfg env src isLast st)))
           = scrapedSources (snd (snd st)) @ [as_url src]"
    by (simp add: scrapeAmazonSource_def st f Let_def scrapedSources_append
        scrapedSources_Cons)
  have "p_requestCount stats < p_requestCount stats1"
    using p_fetchAttempts_progress [of 1 cfg ?st1 "env_net env" "as_url src"] r assms(2)
    by (simp)
  then show "p_requestCount (fst (snd st)) < p_requestCount (fst (snd (scrapeAmazonSource cfg env src isLast st)))"
    by (simp add: scrapeAmazonSource_def st f Let_def)
qed

lemma scrapeAmazonSources_scraped:
  assumes "0 < p_MAX_RETRIES cfg"
  shows "\<exists>j. scrapedSources (snd (snd (scrapeAmazonSources cfg env sources st)))
              = scrapedSources (snd (snd st)) @ map as_url (take j sources) \<and>
            j + p_requestCount (fst (snd st)) \<le> max (p_MAX_REQUESTS_PER_SESSION cfg) (p_requestCount (fst (snd st)))"
proof (induction sources arbitrary: st)
  case Nil
  show ?case by (intro exI [of _ 0]) simp
next
  case (Cons src rest)
  show ?case
  proof (cases "p_MAX_REQUESTS_PER_SESSION cfg \<le> p_requestCount (fst (snd st))")
    case True
    then have "scrapedSources (snd (snd (scrapeAmazonSources cfg env (src # rest) st)))
        = scrapedSources (snd (snd st)) @ map as_url (take 0 (src # rest))"
      by (simp add: scrapedSources_append scrapedSources_Cons)
    then show ?thesis by (intro exI [of _ 0]) simp
  next
    case False
    let ?st1 = "scrapeAmazonSource cfg env src (rest = []) st"
    from False have lt: "p_requestCount (fst (snd st)) < p_MAX_REQUESTS_PER_SESSION cfg" by simp
    note step = scrapeAmazonSource_scraped [OF lt assms, of env src "rest = []"]
    from Cons.IH [of ?st1] obtain j where
      j: "scrapedSources (snd (snd (scrapeAmazonSources cfg env rest ?st1)))
            = scrapedSources (snd (snd ?st1)) @ map as_url (take j rest)"
      and b: "j + p_requestCount (fst (snd ?st1)) \<le> max (p_MAX_REQUESTS_PER_SESSION cfg) (p_requestCount (fst (snd ?st1)))"
      by blast
    have "scrapedSources (snd (snd (scrapeAmazonSources cfg env (src # rest) st)))
        = scrapedSources (snd (snd st)) @ map as_url (take (Suc j) (src # rest))"
      using False j step(1) by simp
    moreover have "Suc j + p_requestCount (fst (snd st))
        \<le> max (p_MAX_REQUESTS_PER_SESSION cfg) (p_requestCount (fst (snd st)))"
      using b step(2) lt by arith
    ultimately show ?thesis by blast
  qed
qed

lemma discoverProducts_scraped:
  assumes "0 < p_MAX_RETRIES cfg"
  shows "\<exists>j \<le> p_MAX_REQUESTS_PER_SESSION cfg.
           scrapedSources (snd (snd (discoverProducts cfg env sources limit)))
             = map as_url (take j sources)"
proof -
  let ?st0 = "([], \<lparr>p_requestCount = 0, productsFound = 0, p_errors = [], p_startTime = date_now env\<rparr>, [])"
  from scrapeAmazonSources_scraped [OF assms, of env sources ?st0] obtain j where
    j: "scrapedSources (snd (snd (scrapeAmazonSources cfg env sources ?st0)))
          = map as_url (take j sources)" and b: "j \<le> p_MAX_REQUESTS_PER_SESSION cfg"
    by (auto simp: scrapedSources_Cons)
  obtain ps stats' evs' where
    r: "scrapeAmazonSources cfg env sources ?st0 = (ps, stats', evs')" by (metis prod_cases3)
  from j r have "scrapedSources (snd (snd (discoverProducts cfg env sources limit)))
      = map as_url (take j sources)"
    by (simp add: discoverProducts_def)
  with b show ?thesis by blast
qed

text \<open>
  Claim C6, as amended. Once the request count has reached the budget, \<open>fetchWithRetry\<close>
  returns null at once, sends no request and adds no error, and the loop over the sources
  stops: the remaining sources are left out and nothing is recorded but the console line.
  The budget counts requests, retries included, not sources: with at least one attempt per
  call, the sources that are scraped are the first \<open>j\<close> of the list for some \<open>j\<close> up to
  the budget, in both scrapers. With a budget of 2 and 5 sources, the first 2 sources are scraped when every
  request succeeds at once.
\<close>

theorem budget_reached_skips_silently:
  "(MAX_REQUESTS cfg \<le> requestCount stats \<longrightarrow>
      fetchWithRetry cfg net url (stats, evs) = (None, stats, evs @ [Skipping url]) \<and>
      scrapeCommunitySources cfg env (src # rest) (ds, stats, evs)
        = (ds, stats, evs @ [LimitReached])) \<and>
   (p_MAX_REQUESTS_PER_SESSION pcfg \<le> p_requestCount pstats \<longrightarrow>
      p_fetchWithRetry pcfg net url (pstats, evs) = (None, pstats, evs @ [Skipping url]) \<and>
      scrapeAmazonSources pcfg env (psrc # prest) (ps, pstats, evs)
        = (ps, pstats, evs @ [LimitReached])) \<and>
   (0 < MAX_RETRIES cfg \<longrightarrow>
      (\<exists>j \<le> MAX_REQUESTS cfg.
         scrapedSources (snd (snd (discoverCommunityDeals cfg env sources limit)))
           = map src_name (take j sources))) \<and>
   (0 < p_MAX_RETRIES pcfg \<longrightarrow>
      (\<exists>j \<le> p_MAX_REQUESTS_PER_SESSION pcfg.
         scrapedSources (snd (snd (discoverProducts pcfg env psources limit)))
           = map as_url (take j psources))) \<and>
   discoverCommunityDeals budgetTwo (sampleEnv okNet) fiveSources limit
     = ([], \<lparr>requestCount = 2, dealsFound = 0, errors = [], startTime = 0\<rparr>,
        [Scraping ''Pelando'', Fetching ''https://www.pelando.com.br/search?q=amazon'',
         RandomDelay 3000 6000,
         Scraping ''Promobit'', Fetching ''https://www.promobit.com.br/promocoes/loja/amazon'',
         LimitReached])"
proof (intro conjI impI)
  assume "MAX_REQUESTS cfg \<le> requestCount stats"
  then show "fetchWithRetry cfg net url (stats, evs) = (None, stats, evs @ [Skipping url])"
    by (simp add: fetchWithRetry_def)
next
  assume "MAX_REQUESTS cfg \<le> requestCount stats"
  then show "scrapeCommunitySources cfg env (src # rest) (ds, stats, evs)
      = (ds, stats, evs @ [LimitReached])"
    by simp
next
  assume "p_MAX_REQUESTS_PER_SESSION pcfg \<le> p_requestCount pstats"
  then show "p_fetchWithRetry pcfg net url (pstats, evs) = (None, pstats, evs @ [Skipping url])"
    by (simp add: p_fetchWithRetry_def)
next
  assume "p_MAX_REQUESTS_PER_SESSION pcfg \<le> p_requestCount pstats"
  then show "scrapeAmazonSources pcfg env (psrc # prest) (ps, pstats, evs)
      = (ps, pstats, evs @ [LimitReached])"
    by simp
next
  assume "0 < MAX_RETRIES cfg"
  then show "\<exists>j \<le> MAX_REQUESTS cfg.
      scrapedSources (snd (snd (discoverCommunityDeals cfg env sources limit)))
        = map src_name (take j sources)"
    by (rule discoverCommunityDeals_scraped)
next
  assume "0 < p_MAX_RETRIES pcfg"
  then show "\<exists>j \<le> p_MAX_REQUESTS_PER_SESSION pcfg.
      scrapedSources (snd (snd (discoverProducts pcfg env psources limit)))
        = map as_url (take j psources)"
    by (rule discoverProducts_scraped)
next
  show "discoverCommunityDeals budgetTwo (sampleEnv okNet) fiveSources limit
     = ([], \<lparr>requestCount = 2, dealsFound = 0, errors = [], startTime = 0\<rparr>,
        [Scraping ''Pelando'', Fetching ''https://www.pelando.com.br/search?q=amazon'',
         RandomDelay 3000 6000,
         Scraping ''Promobit'', Fetching ''https://www.promobit.com.br/promocoes/loja/amazon'',
         LimitReached])"
    by (simp add: discoverCommunityDeals_def scrapeCommunitySource_def fetchWithRetry_def
        fetchAttempts.simps budgetTwo_def CONFIG_def sampleEnv_def okNet_def fiveSources_def COMMUNITY_SOURCES_def
        scrapeDealsFromHTML_empty_doc postProcessDeals_def deduplicateDeals_def
        filterQualityDeals_def array_sort_def array_slice0_def)
qed

theorem budget_reached_skips_silently_witness:
  "MAX_REQUESTS budgetTwo
     \<le> requestCount \<lparr>requestCount = 2, dealsFound = 0, errors = [], startTime = 0\<rparr> \<and>
   fetchWithRetry budgetTwo failingNet ''https://gatry.com''
       (\<lparr>requestCount = 2, dealsFound = 0, errors = [], startTime = 0\<rparr>, [])
     = (None, \<lparr>requestCount = 2, dealsFound = 0, errors = [], startTime = 0\<rparr>,
        [Skipping ''https://gatry.com'']) \<and>
   p_MAX_REQUESTS_PER_SESSION p_CONFIG
     \<le> p_requestCount \<lparr>p_requestCount = 7, productsFound = 0, p_errors = [], p_startTime = 0\<rparr> \<and>
   p_fetchWithRetry p_CONFIG failingNet ''https://gatry.com''
       (\<lparr>p_requestCount = 7, productsFound = 0, p_errors = [], p_startTime = 0\<rparr>, [])
     = (None, \<lparr>p_requestCount = 7, productsFound = 0, p_errors = [], p_startTime = 0\<rparr>,
        [Skipping ''https://gatry.com'']) \<and>
   0 < MAX_RETRIES budgetTwo \<and>
   (\<exists>j \<le> 2. scrapedSources (snd (snd (discoverCommunityDeals budgetTwo (sampleEnv failingNet)
        fiveSources None))) = map src_name (take j fiveSources)) \<and>
   0 < p_MAX_RETRIES p_CONFIG \<and>
   (\<exists>j \<le> 6. scrapedSources (snd (snd (discoverProducts p_CONFIG (sampleEnv failingNet)
        SCRAPE_SOURCES None))) = map as_url (take j SCRAPE_SOURCES))"
  using budget_reached_skips_silently
    [of budgetTwo "\<lparr>requestCount = 2, dealsFound = 0, errors = [], startTime = 0\<rparr>"
        failingNet "''https://gatry.com''" "[]" "sampleEnv failingNet" "hd fiveSources"
        "tl fiveSources" "[]" p_CONFIG
        "\<lparr>p_requestCount = 7, productsFound = 0, p_errors = [], p_startTime = 0\<rparr>"
        "hd SCRAPE_SOURCES" "tl SCRAPE_SOURCES" "[]" fiveSources None SCRAPE_SOURCES]
  by (simp add: budgetTwo_def CONFIG_def p_CONFIG_def)

text \<open>
  The example of the claim fails as soon as a request is retried: with a budget of 2 and 5
  sources, when the first request fails and its retry succeeds, the two requests of the
  budget are spent on the first source, which alone is scraped; no error is recorded.
\<close>

theorem budget_counterexample:
  "discoverCommunityDeals budgetTwo (sampleEnv retryOnceNet) fiveSources None
     = ([], \<lparr>requestCount = 2, dealsFound = 0, errors = [], startTime = 0\<rparr>,
        [Scraping ''Pelando'', Fetching ''https://www.pelando.com.br/search?q=amazon'',
         Sleep 2000, Fetching ''https://www.pelando.com.br/search?q=amazon'',
         LimitReached]) \<and>
   scrapedSources (snd (snd (discoverCommunityDeals budgetTwo (sampleEnv retryOnceNet)
       fiveSources None))) = [''Pelando''] \<and>
   length fiveSources = 5 \<and> MAX_REQUESTS budgetTwo = 2"
proof -
  have run: "discoverCommunityDeals budgetTwo (sampleEnv retryOnceNet) fiveSources None
     = ([], \<lparr>requestCount = 2, dealsFound = 0, errors = [], startTime = 0\<rparr>,
        [Scraping ''Pelando'', Fetching ''https://www.pelando.com.br/search?q=amazon'',
         Sleep 2000, Fetching ''https://www.pelando.com.br/search?q=amazon'',
         LimitReached])"
    by (simp add: discoverCommunityDeals_def scrapeCommunitySource_def fetchWithRetry_def
        fetchAttempts.simps budgetTwo_def CONFIG_def sampleEnv_def retryOnceNet_def fiveSources_def
        COMMUNITY_SOURCES_def scrapeDealsFromHTML_empty_doc postProcessDeals_def
        deduplicateDeals_def filterQualityDeals_def array_sort_def array_slice0_def
        limitOrDefault_def)
  show ?thesis
    unfolding run
    by (simp add: scrapedSources_def fiveSources_def COMMUNITY_SOURCES_def budgetTwo_def CONFIG_def)
qed

text \<open>
  Claim C10. The budget is tested only on entry to \<open>fetchWithRetry\<close>, and every attempt
  counts. A call that starts one request below the budget and whose attempts all fail ends
  at \<open>MAX_REQUESTS + MAX_RETRIES - 1\<close>, which is above the budget for two retries or
  more. Over a whole session the request count never exceeds \<open>MAX_REQUESTS + MAX_RETRIES - 1\<close>
  (5 for the community scraper's budget of 4 and 2 retries), and the Amazon scraper with its
  own configuration and sources reaches 7 for a budget of 6.
\<close>

theorem request_count_bounded_by_budget_plus_retries:
  "(0 < MAX_REQUESTS cfg + MAX_RETRIES cfg \<longrightarrow>
      requestCount (fst (snd (discoverCommunityDeals cfg env sources limit)))
        \<le> MAX_REQUESTS cfg + MAX_RETRIES cfg - 1) \<and>
   (0 < p_MAX_REQUESTS_PER_SESSION pcfg + p_MAX_RETRIES pcfg \<longrightarrow>
      p_requestCount (fst (snd (discoverProducts pcfg env psources limit)))
        \<le> p_MAX_REQUESTS_PER_SESSION pcfg + p_MAX_RETRIES pcfg - 1) \<and>
   (0 < MAX_REQUESTS cfg \<and> requestCount stats = MAX_REQUESTS cfg - 1 \<and>
    (\<forall>n. net url n = Failed msg) \<longrightarrow>
      requestCount (fst (snd (fetchWithRetry cfg net url (stats, evs))))
        = MAX_REQUESTS cfg + MAX_RETRIES cfg - 1) \<and>
   (0 < p_MAX_REQUESTS_PER_SESSION pcfg \<and>
    p_requestCount pstats = p_MAX_REQUESTS_PER_SESSION pcfg - 1 \<and>
    (\<forall>n. net url n = Failed msg) \<longrightarrow>
      p_requestCount (fst (snd (p_fetchWithRetry pcfg net url (pstats, evs))))
        = p_MAX_REQUESTS_PER_SESSION pcfg + p_MAX_RETRIES pcfg - 1) \<and>
   p_requestCount (fst (snd (discoverProducts p_CONFIG (sampleEnv failingAfterFirstNet)
       SCRAPE_SOURCES limit))) = 7"
proof (intro conjI impI)
  assume pos: "0 < MAX_REQUESTS cfg + MAX_RETRIES cfg"
  let ?st0 = "([], \<lparr>requestCount = 0, dealsFound = 0, errors = [], startTime = date_now env\<rparr>, [])"
  have "requestCount (fst (snd (scrapeCommunitySources cfg env sources ?st0)))
      < MAX_REQUESTS cfg + MAX_RETRIES cfg"
    by (rule scrapeCommunitySources_count) (use pos in simp)
  moreover obtain ds stats' evs' where
    "scrapeCommunitySources cfg env sources ?st0 = (ds, stats', evs')" by (metis prod_cases3)
  ultimately show "requestCount (fst (snd (discoverCommunityDeals cfg env sources limit)))
      \<le> MAX_REQUESTS cfg + MAX_RETRIES cfg - 1"
    by (simp add: discoverCommunityDeals_def)
next
  assume pos: "0 < p_MAX_REQUESTS_PER_SESSION pcfg + p_MAX_RETRIES pcfg"
  let ?st0 = "([], \<lparr>p_requestCount = 0, productsFound = 0, p_errors = [],
                     p_startTime = date_now env\<rparr>, [])"
  have "p_requestCount (fst (snd (scrapeAmazonSources pcfg env psources ?st0)))
      < p_MAX_REQUESTS_PER_SESSION pcfg + p_MAX_RETRIES pcfg"
    by (rule scrapeAmazonSources_count) (use pos in simp)
  moreover obtain ps stats' evs' where
    "scrapeAmazonSources pcfg env psources ?st0 = (ps, stats', evs')" by (metis prod_cases3)
  ultimately show "p_requestCount (fst (snd (discoverProducts pcfg env psources limit)))
      \<le> p_MAX_REQUESTS_PER_SESSION pcfg + p_MAX_RETRIES pcfg - 1"
    by (simp add: discoverProducts_def)
next
  assume h: "0 < MAX_REQUESTS cfg \<and> requestCount stats = MAX_REQUESTS cfg - 1 \<and>
    (\<forall>n. net url n = Failed msg)"
  then have c: "requestCount (fst (snd (fetchAttempts cfg net url 1 (stats, evs))))
      = requestCount stats + MAX_RETRIES cfg"
    using fetchAttempts_all_fail [of net url msg cfg 1 "(stats, evs)"]
    by (simp)
  from h have "\<not> MAX_REQUESTS cfg \<le> requestCount stats" by arith
  then have "fetchWithRetry cfg net url (stats, evs) = fetchAttempts cfg net url 1 (stats, evs)"
    by (simp add: fetchWithRetry_def)
  with c h show "requestCount (fst (snd (fetchWithRetry cfg net url (stats, evs))))
      = MAX_REQUESTS cfg + MAX_RETRIES cfg - 1"
    by (simp)
next
  assume h: "0 < p_MAX_REQUESTS_PER_SESSION pcfg \<and>
    p_requestCount pstats = p_MAX_REQUESTS_PER_SESSION pcfg - 1 \<and>
    (\<forall>n. net url n = Failed msg)"
  then have c: "p_requestCount (fst (snd (p_fetchAttempts pcfg net url 1 (pstats, evs))))
      = p_requestCount pstats + p_MAX_RETRIES pcfg"
    using p_fetchAttempts_all_fail [of net url msg pcfg 1 "(pstats, evs)"]
    by (simp)
  from h have "\<not> p_MAX_REQUESTS_PER_SESSION pcfg \<le> p_requestCount pstats" by arith
  then have "p_fetchWithRetry pcfg net url (pstats, evs) = p_fetchAttempts pcfg net url 1 (pstats, evs)"
    by (simp add: p_fetchWithRetry_def)
  with c h show "p_requestCount (fst (snd (p_fetchWithRetry pcfg net url (pstats, evs))))
      = p_MAX_REQUESTS_PER_SESSION pcfg + p_MAX_RETRIES pcfg - 1"
    by (simp)
next
  show "p_requestCount (fst (snd (discoverProducts p_CONFIG (sampleEnv failingAfterFirstNet)
       SCRAPE_SOURCES limit))) = 7"
    by (simp add: discoverProducts_def scrapeAmazonSource_def p_fetchWithRetry_def
        p_fetchAttempts.simps p_CONFIG_def sampleEnv_def failingAfterFirstNet_def
        SCRAPE_SOURCES_def scrapeProductsFromHTML_empty_doc)
qed

theorem request_count_bounded_by_budget_plus_retries_witness:
  "0 < MAX_REQUESTS CONFIG + MAX_RETRIES CONFIG \<and>
   requestCount (fst (snd (discoverCommunityDeals CONFIG (sampleEnv failingNet)
       COMMUNITY_SOURCES None))) \<le> 5 \<and>
   0 < p_MAX_REQUESTS_PER_SESSION p_CONFIG + p_MAX_RETRIES p_CONFIG \<and>
   p_requestCount (fst (snd (discoverProducts p_CONFIG (sampleEnv failingNet)
       SCRAPE_SOURCES None))) \<le> 7 \<and>
   0 < MAX_REQUESTS CONFIG \<and>
   requestCount \<lparr>requestCount = 3, dealsFound = 0, errors = [], startTime = 0\<rparr>
     = MAX_REQUESTS CONFIG - 1 \<and>
   (\<forall>n. failingNet ''https://www.pelando.com.br/search?q=amazon'' n = Failed ''timeout'') \<and>
   requestCount (fst (snd (fetchWithRetry CONFIG failingNet
       ''https://www.pelando.com.br/search?q=amazon''
       (\<lparr>requestCount = 3, dealsFound = 0, errors = [], startTime = 0\<rparr>, [])))) = 5 \<and>
   p_requestCount (fst (snd (p_fetchWithRetry p_CONFIG failingNet
       ''https://www.pelando.com.br/search?q=amazon''
       (\<lparr>p_requestCount = 5, productsFound = 0, p_errors = [], p_startTime = 0\<rparr>, [])))) = 7"
  using request_count_bounded_by_budget_plus_retries
    [of CONFIG "sampleEnv failingNet" COMMUNITY_SOURCES None p_CONFIG SCRAPE_SOURCES
        "\<lparr>requestCount = 3, dealsFound = 0, errors = [], startTime = 0\<rparr>"
        failingNet "''https://www.pelando.com.br/search?q=amazon''" "''timeout''" "[]"
        "\<lparr>p_requestCount = 5, productsFound = 0, p_errors = [], p_startTime = 0\<rparr>"]
  by (simp add: CONFIG_def p_CONFIG_def failingNet_def)

section \<open>What the extractor returns\<close>


















section \<open>Card selectors\<close>









end
